theory Spec2Isabelle
  imports Complex_Main
begin

section \<open>Numbers and arrays\<close>

text \<open>
  The program computes with numpy double precision arrays. A double is modelled as an
  exact real number or one of the three special values; rounding, overflow of finite
  values and the sign of zero are not modelled. What is modelled is the behaviour of
  numpy arithmetic where it leaves the reals: a division by zero does not raise, it yields
  an infinity or NaN (with a warning), and NaN compares false with everything.
\<close>

datatype fl = Fin real | PInf | NInf | NaN

datatype error =
  RuntimeError | ValueError | IndexError | LinAlgError | AttributeError | TypeError
  | ZeroDivisionError | UnboundLocalError

definition inf_signed :: "real \<Rightarrow> fl" where
  "inf_signed a = (if 0 < a then PInf else if a < 0 then NInf else NaN)"

fun fneg :: "fl \<Rightarrow> fl" where
  "fneg (Fin a) = Fin (- a)"
| "fneg PInf = NInf"
| "fneg NInf = PInf"
| "fneg NaN = NaN"

fun fadd :: "fl \<Rightarrow> fl \<Rightarrow> fl" where
  "fadd (Fin a) (Fin b) = Fin (a + b)"
| "fadd (Fin a) PInf = PInf"
| "fadd (Fin a) NInf = NInf"
| "fadd PInf (Fin b) = PInf"
| "fadd PInf PInf = PInf"
| "fadd PInf NInf = NaN"
| "fadd NInf (Fin b) = NInf"
| "fadd NInf NInf = NInf"
| "fadd NInf PInf = NaN"
| "fadd NaN y = NaN"
| "fadd x NaN = NaN"

definition fsub :: "fl \<Rightarrow> fl \<Rightarrow> fl" where
  "fsub x y = fadd x (fneg y)"

fun fmul :: "fl \<Rightarrow> fl \<Rightarrow> fl" where
  "fmul (Fin a) (Fin b) = Fin (a * b)"
| "fmul (Fin a) PInf = inf_signed a"
| "fmul (Fin a) NInf = inf_signed (- a)"
| "fmul PInf (Fin b) = inf_signed b"
| "fmul NInf (Fin b) = inf_signed (- b)"
| "fmul PInf PInf = PInf"
| "fmul PInf NInf = NInf"
| "fmul NInf PInf = NInf"
| "fmul NInf NInf = PInf"
| "fmul NaN y = NaN"
| "fmul x NaN = NaN"

fun fdiv :: "fl \<Rightarrow> fl \<Rightarrow> fl" where
  "fdiv (Fin a) (Fin b) = (if b = 0 then inf_signed a else Fin (a / b))"
| "fdiv (Fin a) PInf = Fin 0"
| "fdiv (Fin a) NInf = Fin 0"
| "fdiv PInf (Fin b) = (if 0 \<le> b then PInf else NInf)"
| "fdiv NInf (Fin b) = (if 0 \<le> b then NInf else PInf)"
| "fdiv PInf PInf = NaN"
| "fdiv PInf NInf = NaN"
| "fdiv NInf PInf = NaN"
| "fdiv NInf NInf = NaN"
| "fdiv NaN y = NaN"
| "fdiv x NaN = NaN"

fun flt :: "fl \<Rightarrow> fl \<Rightarrow> bool" where
  "flt (Fin a) (Fin b) = (a < b)"
| "flt (Fin a) PInf = True"
| "flt NInf (Fin b) = True"
| "flt NInf PInf = True"
| "flt x y = False"

definition fge :: "fl \<Rightarrow> fl \<Rightarrow> bool" where
  "fge x y = (flt y x \<or> (x = y \<and> x \<noteq> NaN))"


fun fexp :: "fl \<Rightarrow> fl" where
  "fexp (Fin a) = Fin (exp a)"
| "fexp PInf = PInf"
| "fexp NInf = Fin 0"
| "fexp NaN = NaN"

fun flog :: "fl \<Rightarrow> fl" where
  "flog (Fin a) = (if 0 < a then Fin (ln a) else if a = 0 then NInf else NaN)"
| "flog PInf = PInf"
| "flog NInf = NaN"
| "flog NaN = NaN"

fun fsqrt :: "fl \<Rightarrow> fl" where
  "fsqrt (Fin a) = (if 0 \<le> a then Fin (sqrt a) else NaN)"
| "fsqrt PInf = PInf"
| "fsqrt NInf = NaN"
| "fsqrt NaN = NaN"

text \<open>\<open>x ** (1./D)\<close> for a positive integer \<open>D\<close>: NaN for a negative base.\<close>

fun froot :: "nat \<Rightarrow> fl \<Rightarrow> fl" where
  "froot d (Fin a) = (if 0 \<le> a then Fin (a powr (1 / real d)) else NaN)"
| "froot d PInf = PInf"
| "froot d NInf = NaN"
| "froot d NaN = NaN"

type_synonym vec = "fl list"
type_synonym mat = "fl list list"

definition fsum :: "fl list \<Rightarrow> fl" where
  "fsum xs = foldr fadd xs (Fin 0)"

definition nonneg :: "fl \<Rightarrow> bool" where
  "nonneg x = fge x (Fin 0)"

definition vadd :: "vec \<Rightarrow> vec \<Rightarrow> vec" where
  "vadd u v = map2 fadd u v"

definition vsub :: "vec \<Rightarrow> vec \<Rightarrow> vec" where
  "vsub u v = map2 fsub u v"

definition vscale :: "fl \<Rightarrow> vec \<Rightarrow> vec" where
  "vscale c v = map (fmul c) v"

definition vsum :: "nat \<Rightarrow> vec list \<Rightarrow> vec" where
  "vsum d vs = foldr vadd vs (replicate d (Fin 0))"

definition madd :: "mat \<Rightarrow> mat \<Rightarrow> mat" where
  "madd a b = map2 vadd a b"

definition msub :: "mat \<Rightarrow> mat \<Rightarrow> mat" where
  "msub a b = map2 vsub a b"

definition mscale :: "fl \<Rightarrow> mat \<Rightarrow> mat" where
  "mscale c a = map (vscale c) a"

definition msum :: "nat \<Rightarrow> mat list \<Rightarrow> mat" where
  "msum d ms = foldr madd ms (replicate d (replicate d (Fin 0)))"

definition eye :: "nat \<Rightarrow> mat" where
  "eye d = map (\<lambda>i. map (\<lambda>j. if i = j then Fin 1 else Fin 0) [0..<d]) [0..<d]"

definition outer :: "vec \<Rightarrow> vec \<Rightarrow> mat" where
  "outer u v = map (\<lambda>x. map (fmul x) v) u"

text \<open>\<open>np.einsum('...i,...ij,...j', dx, T, dx)\<close> for one sample.\<close>

definition quadform :: "vec \<Rightarrow> mat \<Rightarrow> vec \<Rightarrow> fl" where
  "quadform u t v =
     fsum (concat (map (\<lambda>i. map (\<lambda>j. fmul (fmul (u ! i) (t ! i ! j)) (v ! j))
       [0..<length v]) [0..<length u]))"

text \<open>\<open>np.einsum('ij,...jk,...k', c, T, d)\<close> for one sample.\<close>

definition einsum_mmv :: "mat \<Rightarrow> mat \<Rightarrow> vec \<Rightarrow> vec" where
  "einsum_mmv c t d =
     map (\<lambda>row. fsum (concat (map (\<lambda>j. map (\<lambda>k. fmul (fmul (row ! j) (t ! j ! k)) (d ! k))
       [0..<length d]) [0..<length row]))) c"

text \<open>\<open>np.einsum('ij,...jk,...kl', c, T, c)\<close> for one sample.\<close>

definition einsum_mmm :: "mat \<Rightarrow> mat \<Rightarrow> mat \<Rightarrow> mat" where
  "einsum_mmm c t e =
     map (\<lambda>row. map (\<lambda>l. fsum (concat (map (\<lambda>j. map (\<lambda>k.
         fmul (fmul (row ! j) (t ! j ! k)) (e ! k ! l)) [0..<length e]) [0..<length row])))
       [0..<(case e of [] \<Rightarrow> 0 | r # _ \<Rightarrow> length r)]) c"

section \<open>The mixture and the background\<close>

text \<open>
  \<open>class GMM\<close>: \<open>amp\<close> has shape (K), \<open>mean\<close> (K, D) and \<open>covar\<close> (K, D, D). The arrays
  are allocated once and afterwards only written through slices and rows, so their shapes
  never change.
\<close>

record gmm =
  amp :: "fl list"
  mean :: "vec list"
  covar :: "mat list"

definition gmm_K :: "gmm \<Rightarrow> nat" where
  "gmm_K g = length (amp g)"

definition gmm_D :: "gmm \<Rightarrow> nat" where
  "gmm_D g = (case mean g of [] \<Rightarrow> 0 | m # _ \<Rightarrow> length m)"

text \<open>\<open>class Background\<close>; \<open>footprint\<close> is the pair of corner vectors.\<close>

record background =
  bg_amp :: fl
  footprint :: "vec \<times> vec"
  adjust_amp :: bool
  amp_max :: fl

definition bg_p :: "background \<Rightarrow> fl" where
  "bg_p b = fdiv (Fin 1)
     (foldr fmul (vsub (snd (footprint b)) (fst (footprint b))) (Fin 1))"

definition ebind :: "error + 'a \<Rightarrow> ('a \<Rightarrow> error + 'b) \<Rightarrow> error + 'b" where
  "ebind r f = (case r of Inl e \<Rightarrow> Inl e | Inr x \<Rightarrow> f x)"

definition reshape_n :: "nat \<Rightarrow> 'a list \<Rightarrow> error + 'a list" where
  "reshape_n n xs = (if length xs = n then Inr xs else Inl ValueError)"

text \<open>Running a list of fallible computations in order; the first error is raised.\<close>

fun sequence :: "(error + 'a) list \<Rightarrow> error + 'a list" where
  "sequence [] = Inr []"
| "sequence (r # rs) = ebind r (\<lambda>x. ebind (sequence rs) (\<lambda>xs. Inr (x # xs)))"

text \<open>
  A neighbourhood \<open>U[k]\<close> is \<open>None\<close> (all samples), an index array, or, in a fit with a
  background, the boolean mask \<open>H\<close>.
\<close>

datatype nbh = Null | Idx "nat list" | Mask "bool list"

text \<open>\<open>a[U_k]\<close>: numpy indexing of the first axis by a neighbourhood.\<close>

fun take_nbh :: "nbh \<Rightarrow> 'a list \<Rightarrow> error + 'a list" where
  "take_nbh Null xs = Inr xs"
| "take_nbh (Idx is) xs =
     (if list_all (\<lambda>i. i < length xs) is then Inr (map (\<lambda>i. xs ! i) is) else Inl IndexError)"
| "take_nbh (Mask m) xs =
     (if length m = length xs then Inr (map snd (filter fst (zip m xs))) else Inl IndexError)"

text \<open>The per-sample noise covariance: absent, one matrix for all, or one per sample.\<close>

datatype noise = NoNoise | Shared mat | PerSample "mat list"

text \<open>\<open>T_inv[k]\<close>: \<open>None\<close>, one (D, D) matrix, or one matrix per sample of \<open>U[k]\<close>.\<close>

datatype tinv = TNone | TOne mat | TEach "mat list"

section \<open>Library functions\<close>

text \<open>
  The numpy and scipy routines the program calls are parameters of the model:
  \<open>np.linalg.inv\<close> (\<open>None\<close> when it raises LinAlgError on a singular matrix),
  \<open>np.linalg.slogdet\<close>, \<open>np.linalg.svd\<close>, \<open>scipy.stats.norm.cdf\<close> and
  \<open>scipy.stats.chi2.ppf\<close>.
\<close>

record numlib =
  np_inv :: "mat \<Rightarrow> mat option"
  np_slogdet :: "mat \<Rightarrow> fl \<times> fl"
  np_svd :: "mat \<Rightarrow> mat \<times> vec \<times> mat"
  norm_cdf :: "fl \<Rightarrow> fl"
  chi2_ppf :: "fl \<Rightarrow> nat \<Rightarrow> fl"

definition inv_or_raise :: "numlib \<Rightarrow> mat \<Rightarrow> error + mat" where
  "inv_or_raise L m = (case np_inv L m of None \<Rightarrow> Inl LinAlgError | Some t \<Rightarrow> Inr t)"

definition chi2_cutoff :: "numlib \<Rightarrow> nat \<Rightarrow> fl \<Rightarrow> fl" where
  "chi2_cutoff L D cutoff =
     (let cdf_1d = norm_cdf L cutoff;
          confidence_1d = fsub (Fin 1) (fmul (fsub (Fin 1) cdf_1d) (Fin 2));
          cutoff_nd = chi2_ppf L confidence_1d D
      in cutoff_nd)"

section \<open>The E-step of one component\<close>

text \<open>\<open>a[indices]\<close> for a boolean array \<open>indices\<close>, and \<open>np.flatnonzero\<close>.\<close>

definition pick :: "bool list \<Rightarrow> 'a list \<Rightarrow> 'a list" where
  "pick m xs = map snd (filter fst (zip m xs))"

definition flatnonzero :: "bool list \<Rightarrow> nat list" where
  "flatnonzero m = pick m [0..<length m]"

text \<open>
  \<open>_Esum\<close>: the log-densities of the candidates of component \<open>k\<close> that are kept, the
  new neighbourhood and the inverted total covariances. \<open>cutoff\<close> is the chi-square
  cutoff \<open>cutoff_nd\<close> computed in \<open>_EM\<close>.
\<close>

definition Esum ::
  "numlib \<Rightarrow> nat \<Rightarrow> nbh \<Rightarrow> gmm \<Rightarrow> vec list \<Rightarrow> noise \<Rightarrow> fl option
     \<Rightarrow> error + (fl list \<times> nbh \<times> tinv)" where
  "Esum L k U_k g data cov cutoff =
     (if gmm_K g \<le> k then Inl IndexError
      else
        ebind (take_nbh U_k data) (\<lambda>xs.
        let dx = map (\<lambda>x. vsub x (mean g ! k)) xs in
        ebind
          (case cov of
             NoNoise \<Rightarrow>
               ebind (inv_or_raise L (covar g ! k)) (\<lambda>ci.
                 Inr (TNone, map (\<lambda>d. quadform d ci d) dx))
           | Shared c \<Rightarrow>
               ebind (inv_or_raise L (madd (covar g ! k) c)) (\<lambda>t.
                 Inr (TOne t, map (\<lambda>d. quadform d t d) dx))
           | PerSample cs \<Rightarrow>
               ebind (take_nbh U_k cs) (\<lambda>cs1.
               ebind (reshape_n (length dx) cs1) (\<lambda>cs2.
               ebind (sequence (map (\<lambda>c. inv_or_raise L (madd (covar g ! k) c)) cs2)) (\<lambda>ts.
                 Inr (TEach ts, map2 (\<lambda>d t. quadform d t d) dx ts)))))
          (\<lambda>(T_inv_k, chi2).
        ebind
          (case cutoff of
             None \<Rightarrow> Inr (chi2, T_inv_k, U_k)
           | Some c \<Rightarrow>
               (let indices = map (\<lambda>x. flt x c) chi2;
                    T1 = (case T_inv_k of TEach ts \<Rightarrow> TEach (pick indices ts) | t \<Rightarrow> t)
                in case U_k of
                     Null \<Rightarrow> Inr (pick indices chi2, T1, Idx (flatnonzero indices))
                   | Idx js \<Rightarrow> Inr (pick indices chi2, T1, Idx (pick indices js))
                   | Mask m \<Rightarrow>
                       if length m = length indices
                       then Inr (pick indices chi2, T1, Mask (pick indices m))
                       else Inl IndexError))
          (\<lambda>(chi2', T_inv_k', U_k').
        let (sign, logdet) = np_slogdet L (covar g ! k);
            log2piD2 = Fin (ln (2 * pi) * (0.5 * real (gmm_D g)))
        in Inr (map (\<lambda>c. fsub (fsub (fsub (flog (amp g ! k)) log2piD2)
                               (fdiv (fmul sign logdet) (Fin 2))) (fdiv c (Fin 2))) chi2',
                U_k', T_inv_k')))))"

text \<open>
  The squared Mahalanobis distance of sample \<open>i\<close> to the mean of component \<open>k\<close>, under the
  component's covariance plus the sample's noise covariance when there is one; \<open>None\<close>
  when that matrix has no inverse.
\<close>

definition mahalanobis2 :: "numlib \<Rightarrow> gmm \<Rightarrow> nat \<Rightarrow> vec list \<Rightarrow> noise \<Rightarrow> nat \<Rightarrow> fl option" where
  "mahalanobis2 L g k data cov i =
     (let dx = vsub (data ! i) (mean g ! k);
          T = (case cov of
                 NoNoise \<Rightarrow> covar g ! k
               | Shared c \<Rightarrow> madd (covar g ! k) c
               | PerSample cs \<Rightarrow> madd (covar g ! k) (cs ! i))
      in map_option (\<lambda>t. quadform dx t dx) (np_inv L T))"

definition below_cutoff :: "numlib \<Rightarrow> gmm \<Rightarrow> nat \<Rightarrow> vec list \<Rightarrow> noise \<Rightarrow> fl \<Rightarrow> nat \<Rightarrow> bool" where
  "below_cutoff L g k data cov c i =
     (case mahalanobis2 L g k data cov i of None \<Rightarrow> False | Some x \<Rightarrow> flt x c)"

text \<open>The candidates of a component: its neighbourhood, or all samples when it is null.\<close>

definition candidates :: "nbh \<Rightarrow> nat \<Rightarrow> nat list" where
  "candidates U_k n =
     (case U_k of Null \<Rightarrow> [0..<n] | Idx js \<Rightarrow> js | Mask m \<Rightarrow> flatnonzero m)"

section \<open>The M-step sums\<close>

definition float_tiny :: real where
  "float_tiny = 1 / 2 ^ 1022"

definition float_max :: real where
  "float_max = (2 - 1 / 2 ^ 52) * 2 ^ 1023"

definition fmin2 :: "fl \<Rightarrow> fl \<Rightarrow> fl" where
  "fmin2 x y = (if x = NaN \<or> y = NaN then NaN else if flt y x then y else x)"

definition fmax2 :: "fl \<Rightarrow> fl \<Rightarrow> fl" where
  "fmax2 x y = (if x = NaN \<or> y = NaN then NaN else if flt x y then y else x)"

text \<open>\<open>logsum(logX)\<close> along axis 0 of a one-dimensional array.\<close>

definition logsum :: "fl list \<Rightarrow> error + fl" where
  "logsum logX =
     (case logX of
        [] \<Rightarrow> Inl ValueError
      | x # xs \<Rightarrow>
          (let underflow = fsub (Fin (ln float_tiny)) (foldr fmin2 xs x);
               overflow = fsub (fsub (Fin (ln float_max)) (foldr fmax2 xs x))
                            (Fin (ln (real (length logX))));
               c = (if flt underflow overflow then underflow else overflow)
           in Inr (fsub (flog (fsum (map (\<lambda>l. fexp (fadd l c)) logX))) c)))"

text \<open>
  A value that is assigned into a row of an array: the literal \<open>0\<close>, which numpy
  broadcasts over the row, or an array of the row's shape.
\<close>

datatype 'a bcast = Scalar fl | Full 'a

definition Msums ::
  "nat \<Rightarrow> nbh \<Rightarrow> fl list \<Rightarrow> tinv \<Rightarrow> gmm \<Rightarrow> vec list \<Rightarrow> fl list
     \<Rightarrow> error + (fl bcast \<times> vec bcast \<times> mat bcast)" where
  "Msums k U_k log_p_k T_inv_k g data log_S =
     (if length log_p_k \<noteq> 0 then
        ebind (take_nbh U_k log_S) (\<lambda>ls.
        ebind (reshape_n (length log_p_k) ls) (\<lambda>ls'.
        let log_q = map2 fsub log_p_k ls' in
        ebind (logsum log_q) (\<lambda>lsum.
        let A_k = fexp lsum;
            q_k = map fexp log_q in
        ebind (take_nbh U_k data) (\<lambda>ds.
        ebind (reshape_n (length log_p_k) ds) (\<lambda>d.
        let D = gmm_D g;
            d_m = map (\<lambda>x. vsub x (mean g ! k)) d in
        (case T_inv_k of
           TNone \<Rightarrow>
             Inr (Full A_k,
                  Full (vsum D (map2 (\<lambda>x q. vscale q x) d q_k)),
                  Full (msum D (map2 (\<lambda>x q. mscale q (outer x x)) d_m q_k)))
         | TOne t \<Rightarrow>
             (let b0 = map (\<lambda>x. vadd (mean g ! k) (einsum_mmv (covar g ! k) t x)) d_m;
                  b_k = map (\<lambda>b. vsub b (mean g ! k)) b0;
                  B_k = msub (covar g ! k) (einsum_mmm (covar g ! k) t (covar g ! k))
              in Inr (Full A_k,
                      Full (vsum D (map2 (\<lambda>b q. vscale q b) b0 q_k)),
                      Full (msum D (map2 (\<lambda>b q. mscale q (madd (outer b b) B_k)) b_k q_k))))
         | TEach ts \<Rightarrow>
             (if length ts \<noteq> length d_m then Inl ValueError
              else
                let b0 = map2 (\<lambda>t x. vadd (mean g ! k) (einsum_mmv (covar g ! k) t x)) ts d_m;
                    b_k = map (\<lambda>b. vsub b (mean g ! k)) b0;
                    B_k = map (\<lambda>t. msub (covar g ! k)
                                (einsum_mmm (covar g ! k) t (covar g ! k))) ts
                in Inr (Full A_k,
                        Full (vsum D (map2 (\<lambda>b q. vscale q b) b0 q_k)),
                        Full (msum D (map2 (\<lambda>(b, B) q. mscale q (madd (outer b b) B))
                                        (zip b_k B_k) q_k))))))))))
      else Inr (Scalar (Fin 0), Scalar (Fin 0), Scalar (Fin 0)))"

text \<open>The value a row of shape \<open>shape\<close> holds after the assignment of a broadcast value.\<close>

definition put_scalar :: "fl bcast \<Rightarrow> fl" where
  "put_scalar v = (case v of Scalar x \<Rightarrow> x | Full x \<Rightarrow> x)"

definition put_vec :: "nat \<Rightarrow> vec bcast \<Rightarrow> vec" where
  "put_vec d v = (case v of Scalar x \<Rightarrow> replicate d x | Full x \<Rightarrow> x)"

definition put_mat :: "nat \<Rightarrow> mat bcast \<Rightarrow> mat" where
  "put_mat d v = (case v of Scalar x \<Rightarrow> replicate d (replicate d x) | Full x \<Rightarrow> x)"

text \<open>
  \<open>_Mstep\<close>: the sums of every component, the number \<open>N\<close> of samples in the fit and the
  background's posterior mass \<open>B\<close> (\<open>None\<close> without a background). \<open>U\<close>, \<open>log_p\<close> and
  \<open>T_inv\<close> hold one entry per component.
\<close>

definition Mstep ::
  "gmm \<Rightarrow> nbh list \<Rightarrow> fl list list \<Rightarrow> tinv list \<Rightarrow> fl list \<Rightarrow> bool list \<Rightarrow> vec list
     \<Rightarrow> background option
     \<Rightarrow> error + (fl list \<times> vec list \<times> mat list \<times> nat \<times> fl option)" where
  "Mstep g U log_p T_inv log_S H data bg =
     ebind (sequence (map (\<lambda>k. Msums k (U ! k) (log_p ! k) (T_inv ! k) g data log_S)
                        [0..<gmm_K g])) (\<lambda>res.
       let A = map (\<lambda>(a, m, c). put_scalar a) res;
           M = map (\<lambda>(a, m, c). put_vec (gmm_D g) m) res;
           C = map (\<lambda>(a, m, c). put_mat (gmm_D g) c) res;
           N = length (filter id H);
           B = (case bg of
                  None \<Rightarrow> None
                | Some b \<Rightarrow>
                    (let p_bg = fmul (bg_amp b) (bg_p b)
                     in Some (fsum (map (\<lambda>l. fdiv p_bg
                          (fadd p_bg (fmul (fsub (Fin 1) (bg_amp b)) (fexp l)))) log_S))))
       in Inr (A, M, C, N, B))"

section \<open>The parameter update\<close>

text \<open>
  \<open>A + A2\<close> and its like: the imputation sums are the integer \<open>0\<close> (\<open>None\<close> here) when
  nothing was imputed, and arrays of the shape of the observed sums otherwise.
\<close>

definition add0 :: "('a \<Rightarrow> 'a \<Rightarrow> 'a) \<Rightarrow> ('a \<Rightarrow> 'a) \<Rightarrow> 'a list \<Rightarrow> 'a list option \<Rightarrow> 'a list" where
  "add0 f f0 X X2 = (case X2 of None \<Rightarrow> map f0 X | Some Y \<Rightarrow> map2 f X Y)"

definition addA :: "fl list \<Rightarrow> fl list option \<Rightarrow> fl list" where
  "addA = add0 fadd (\<lambda>a. fadd a (Fin 0))"

definition addM :: "vec list \<Rightarrow> vec list option \<Rightarrow> vec list" where
  "addM = add0 vadd (map (\<lambda>a. fadd a (Fin 0)))"

definition addC :: "mat list \<Rightarrow> mat list option \<Rightarrow> mat list" where
  "addC = add0 madd (map (map (\<lambda>a. fadd a (Fin 0))))"

text \<open>
  \<open>a[changed] = b[changed]\<close>: \<open>changed\<close> is the full slice (\<open>None\<close>) or the index array
  \<open>altered\<close>.
\<close>

definition assign_changed :: "nat list option \<Rightarrow> 'a list \<Rightarrow> 'a list \<Rightarrow> 'a list" where
  "assign_changed changed old new =
     (case changed of None \<Rightarrow> new | Some alt \<Rightarrow> fold (\<lambda>i xs. xs[i := new ! i]) alt old)"

text \<open>Python's \<open>min(a, b)\<close> on floats: \<open>b\<close> if \<open>b < a\<close>, else \<open>a\<close>.\<close>

definition pymin :: "fl \<Rightarrow> fl \<Rightarrow> fl" where
  "pymin a b = (if flt b a then b else a)"

definition shapes_ok ::
  "nat \<Rightarrow> nat \<Rightarrow> fl list \<Rightarrow> vec list \<Rightarrow> mat list \<Rightarrow> bool" where
  "shapes_ok K D A M C =
     (length A = K \<and> length M = K \<and> length C = K \<and>
      list_all (\<lambda>m. length m = D) M \<and>
      list_all (\<lambda>c. length c = D \<and> list_all (\<lambda>r. length r = D) c) C)"

definition shapes2_ok ::
  "nat \<Rightarrow> nat \<Rightarrow> fl list option \<Rightarrow> vec list option \<Rightarrow> mat list option \<Rightarrow> bool" where
  "shapes2_ok K D A2 M2 C2 =
     ((case A2 of None \<Rightarrow> True | Some a \<Rightarrow> length a = K) \<and>
      (case M2 of None \<Rightarrow> True | Some m \<Rightarrow> length m = K \<and> list_all (\<lambda>r. length r = D) m) \<and>
      (case C2 of None \<Rightarrow> True | Some c \<Rightarrow> length c = K \<and>
         list_all (\<lambda>x. length x = D \<and> list_all (\<lambda>r. length r = D) x) c))"

text \<open>
  \<open>_update\<close>. \<open>H\<close> and \<open>H2\<close> are only read for their sizes; \<open>H2\<close> and \<open>B2\<close> are the
  integer \<open>0\<close> (\<open>None\<close>) when nothing was imputed. Sums of a wrong shape raise numpy's
  broadcasting error, an index of \<open>altered\<close> beyond \<open>K\<close> an IndexError.
\<close>

definition update ::
  "gmm \<Rightarrow> fl list \<Rightarrow> vec list \<Rightarrow> mat list \<Rightarrow> nat \<Rightarrow> fl option \<Rightarrow> bool list
     \<Rightarrow> fl list option \<Rightarrow> vec list option \<Rightarrow> mat list option \<Rightarrow> nat \<Rightarrow> fl option
     \<Rightarrow> bool list option \<Rightarrow> real \<Rightarrow> nat list option \<Rightarrow> background option
     \<Rightarrow> error + (gmm \<times> background option)" where
  "update g A M C N B H A2 M2 C2 N2 B2 H2 w altered bg =
     (let K = gmm_K g; D = gmm_D g in
      if \<not> (shapes_ok K D A M C \<and> shapes2_ok K D A2 M2 C2) then Inl ValueError
      else if \<not> (case altered of None \<Rightarrow> True | Some alt \<Rightarrow> list_all (\<lambda>i. i < K) alt)
      then Inl IndexError
      else
        let AA = addA A A2;
            amp1 = (case altered of
                      None \<Rightarrow> map (\<lambda>a. fdiv a (Fin (real (N + N2)))) AA
                    | Some alt \<Rightarrow>
                        (let unaltered = filter (\<lambda>k. k \<notin> set alt) [0..<K];
                             s_alt = fsum (map (\<lambda>i. AA ! i) alt);
                             rest = fsub (Fin 1) (fsum (map (\<lambda>k. amp g ! k) unaltered))
                         in fold (\<lambda>i xs. xs[i := fmul (fdiv (AA ! i) s_alt) rest]) alt (amp g)));
            amp2 = map (\<lambda>a. fdiv a (fsum amp1)) amp1;
            mean2 = assign_changed altered (mean g)
                      (map2 (\<lambda>m a. map (\<lambda>x. fdiv x a) m) (addM M M2) AA);
            covar2 =
              (if 0 < w then
                 (let w_eff = fmul (Fin (w ^ 2))
                        (fadd (fdiv (fmul (Fin (real (N + N2))) (Fin 1)) (Fin (real K))) (Fin 1))
                  in assign_changed altered (covar g)
                       (map2 (\<lambda>c a. map (map (\<lambda>x. fdiv x (fadd a (Fin 1))))
                                     (madd c (mscale w_eff (eye D))))
                          (addC C C2) AA))
               else
                 assign_changed altered (covar g)
                   (map2 (\<lambda>c a. map (map (\<lambda>x. fdiv x a)) c) (addC C C2) AA));
            g' = g\<lparr>amp := amp2, mean := mean2, covar := covar2\<rparr>
        in (case bg of
              None \<Rightarrow> Inr (g', None)
            | Some b \<Rightarrow>
                if adjust_amp b then
                  (case B of
                     None \<Rightarrow> Inl TypeError
                   | Some B' \<Rightarrow>
                       (case H2 of
                          None \<Rightarrow>
                            Inr (g', Some (b\<lparr>bg_amp :=
                              pymin (fdiv B' (Fin (real (length H)))) (amp_max b)\<rparr>))
                        | Some H2' \<Rightarrow>
                            Inr (g', Some (b\<lparr>bg_amp :=
                              pymin (fdiv (fadd B' (case B2 of None \<Rightarrow> Fin 0 | Some b2 \<Rightarrow> b2))
                                       (Fin (real (length H + length H2'))))
                                (amp_max b)\<rparr>))))
                else Inr (g', Some b)))"

section \<open>The EM driver\<close>

text \<open>
  The objects that \<open>fit\<close> shares with \<open>_EM\<close> and that are changed in place: the mixture,
  the neighbourhoods \<open>U\<close>, the work arrays \<open>log_p\<close>, \<open>T_inv\<close>, \<open>log_S\<close> and \<open>H\<close>, the
  background and the state of the random number generator.
\<close>

record 'r em_state =
  st_gmm :: gmm
  st_U :: "nbh list"
  st_log_p :: "fl list list"
  st_T_inv :: "tinv list"
  st_log_S :: "fl list"
  st_H :: "bool list"
  st_bg :: "background option"
  st_rng :: 'r

text \<open>The keyword arguments of \<open>fit\<close> that are passed on unchanged.\<close>

record 'r fit_args =
  arg_covar :: noise
  arg_w :: real
  arg_sel_callback :: "(vec list \<Rightarrow> bool list) option"
  arg_covar_callback :: "(vec list \<Rightarrow> noise) option"
  arg_tol :: real

text \<open>
  \<open>_EMstep\<close> (the E-step, the M-step, the imputation, which draws random samples and calls
  the callbacks, and \<open>_update\<close>) is a parameter of the driver. It gets the state, the
  data, the arguments, \<open>cutoff_nd\<close>, the previous \<open>N2\<close>, \<open>altered\<close> and \<open>it\<close>; it returns
  \<open>(log_L, N, N2)\<close> and the changed state, or raises.
\<close>

type_synonym 'r emstep =
  "'r em_state \<Rightarrow> vec list \<Rightarrow> 'r fit_args \<Rightarrow> fl option \<Rightarrow> nat \<Rightarrow> nat list option \<Rightarrow> nat
     \<Rightarrow> error + ((fl \<times> nat \<times> nat) \<times> 'r em_state)"

text \<open>
  The local variables of the loop of \<open>_EM\<close>: the backup \<open>gmm_\<close>, and \<open>log_L\<close>, \<open>N\<close>, which
  are unbound (\<open>None\<close>) until the first iteration has assigned them, and \<open>N2\<close>.
\<close>

record 'r em_vars =
  v_state :: "'r em_state"
  v_backup :: gmm
  v_log_L :: "fl option"
  v_N :: "nat option"
  v_N2 :: nat

datatype 'r outcome = Break "'r em_vars" | Continue "'r em_vars"

text \<open>
  \<open>shift2\<close>: the squared displacement of every mean since the backup, in the metric of
  the backup's covariance.
\<close>

definition shift2 :: "numlib \<Rightarrow> gmm \<Rightarrow> gmm \<Rightarrow> error + fl list" where
  "shift2 L g gb =
     ebind (sequence (map (inv_or_raise L) (covar gb))) (\<lambda>invs.
       Inr (map2 (\<lambda>d t. quadform d t d) (map2 vsub (mean g) (mean gb)) invs))"

definition moved_of :: "fl list \<Rightarrow> fl \<Rightarrow> nat list" where
  "moved_of sh shift_cutoff = flatnonzero (map (\<lambda>s. flt shift_cutoff s) sh)"

definition reset_nbh :: "nat list \<Rightarrow> nbh list \<Rightarrow> nbh list" where
  "reset_nbh moved U = fold (\<lambda>k u. u[k := Null]) moved U"

text \<open>One execution of the loop body of \<open>_EM\<close>, in iteration \<open>it\<close>.\<close>

definition EM_body ::
  "numlib \<Rightarrow> 'r emstep \<Rightarrow> vec list \<Rightarrow> 'r fit_args \<Rightarrow> real option \<Rightarrow> fl option \<Rightarrow> fl
     \<Rightarrow> nat list option \<Rightarrow> 'r em_vars \<Rightarrow> nat \<Rightarrow> error + 'r outcome" where
  "EM_body L step data args cutoff cutoff_nd shift_cutoff altered v it =
     ebind (step (v_state v) data args cutoff_nd (v_N2 v) altered it) (\<lambda>((log_L1, N, N2), st).
     ebind (shift2 L (st_gmm st) (v_backup v)) (\<lambda>sh.
       let moved = moved_of sh shift_cutoff;
           continue = Continue \<lparr>
             v_state = st\<lparr>st_U := (if cutoff = None then st_U st else reset_nbh moved (st_U st))\<rparr>,
             v_backup = st_gmm st, v_log_L = Some log_L1, v_N = Some N, v_N2 = N2 \<rparr>
       in if 0 < it then
            (case v_log_L v of
               None \<Rightarrow> Inl UnboundLocalError
             | Some log_L \<Rightarrow>
                 if flt log_L1 (fadd log_L (Fin (arg_tol args))) then
                   if flt log_L1 (fsub log_L (Fin (arg_tol args))) then
                     Inr (Break \<lparr> v_state = st\<lparr>st_gmm := v_backup v\<rparr>, v_backup = v_backup v,
                                   v_log_L = Some log_L, v_N = Some N, v_N2 = N2 \<rparr>)
                   else if moved = [] then
                     Inr (Break \<lparr> v_state = st, v_backup = v_backup v,
                                   v_log_L = Some log_L1, v_N = Some N, v_N2 = N2 \<rparr>)
                   else Inr continue
                 else Inr continue)
          else Inr continue))"

text \<open>
  The loop \<open>while it < maxiter\<close>. The result is the variables at the end of the loop and
  the number of times the body was executed.
\<close>

function EM_loop ::
  "numlib \<Rightarrow> 'r emstep \<Rightarrow> vec list \<Rightarrow> 'r fit_args \<Rightarrow> real option \<Rightarrow> fl option \<Rightarrow> fl
     \<Rightarrow> nat list option \<Rightarrow> nat \<Rightarrow> 'r em_vars \<Rightarrow> nat \<Rightarrow> error + ('r em_vars \<times> nat)" where
  "EM_loop L step data args cutoff cutoff_nd shift_cutoff altered maxiter v it =
     (if it < maxiter then
        (case EM_body L step data args cutoff cutoff_nd shift_cutoff altered v it of
           Inl e \<Rightarrow> Inl e
         | Inr (Break v') \<Rightarrow> Inr (v', Suc it)
         | Inr (Continue v') \<Rightarrow>
             EM_loop L step data args cutoff cutoff_nd shift_cutoff altered maxiter v' (Suc it))
      else Inr (v, it))"
  by pat_completeness auto
termination
  by (relation "measure (\<lambda>(L, step, data, args, cutoff, cutoff_nd, shift_cutoff, altered,
         maxiter, v, it). maxiter - it)") auto

text \<open>What \<open>_EM\<close> hands back: the changed state, \<open>(log_L, N, N2)\<close>, and the number of
  iterations it ran.\<close>

record 'r em_result =
  res_state :: "'r em_state"
  res_log_L :: fl
  res_N :: nat
  res_N2 :: nat
  res_iterations :: nat

definition EM_maxiter :: "gmm \<Rightarrow> nat" where
  "EM_maxiter g = max 100 (gmm_K g)"

text \<open>
  The first lines of \<open>_EM\<close>: the chi-square cutoff of the E-step, the cutoff for the
  shift of a mean, and the variables before the first iteration. \<open>cutoff\<close> is the cutoff
  in standard deviations given to \<open>fit\<close>.
\<close>

definition EM_cutoff_nd :: "numlib \<Rightarrow> gmm \<Rightarrow> real option \<Rightarrow> fl option" where
  "EM_cutoff_nd L g cutoff =
     (case cutoff of None \<Rightarrow> None | Some c \<Rightarrow> Some (chi2_cutoff L (gmm_D g) (Fin c)))"

definition EM_shift_cutoff :: "numlib \<Rightarrow> gmm \<Rightarrow> real option \<Rightarrow> fl" where
  "EM_shift_cutoff L g cutoff =
     (case cutoff of
        None \<Rightarrow> chi2_cutoff L (gmm_D g) (Fin 0.25)
      | Some c \<Rightarrow> chi2_cutoff L (gmm_D g) (Fin (min 0.25 (c / 2))))"

definition EM_init :: "'r em_state \<Rightarrow> 'r em_vars" where
  "EM_init st =
     \<lparr> v_state = st, v_backup = st_gmm st, v_log_L = None, v_N = None, v_N2 = 0 \<rparr>"

text \<open>\<open>_EM\<close>.\<close>

definition EM ::
  "numlib \<Rightarrow> 'r emstep \<Rightarrow> vec list \<Rightarrow> 'r fit_args \<Rightarrow> real option \<Rightarrow> nat list option
     \<Rightarrow> 'r em_state \<Rightarrow> error + 'r em_result" where
  "EM L step data args cutoff altered st =
     ebind (EM_loop L step data args cutoff (EM_cutoff_nd L (st_gmm st) cutoff)
              (EM_shift_cutoff L (st_gmm st) cutoff) altered (EM_maxiter (st_gmm st))
              (EM_init st) 0) (\<lambda>(v, n).
       case v_log_L v of
         None \<Rightarrow> Inl UnboundLocalError
       | Some log_L \<Rightarrow>
           (case v_N v of
              None \<Rightarrow> Inl UnboundLocalError
            | Some N \<Rightarrow>
                Inr \<lparr> res_state = v_state v, res_log_L = log_L, res_N = N, res_N2 = v_N2 v,
                      res_iterations = n \<rparr>))"

text \<open>
  The variables at the head of iteration \<open>n\<close> of a run of \<open>_EM\<close> on \<open>st\<close>, when the run
  gets there: every earlier iteration has ended without a \<open>break\<close> and without raising.
\<close>

fun EM_head ::
  "numlib \<Rightarrow> 'r emstep \<Rightarrow> vec list \<Rightarrow> 'r fit_args \<Rightarrow> real option \<Rightarrow> nat list option
     \<Rightarrow> 'r em_state \<Rightarrow> nat \<Rightarrow> 'r em_vars option" where
  "EM_head L step data args cutoff altered st 0 = Some (EM_init st)"
| "EM_head L step data args cutoff altered st (Suc n) =
     (case EM_head L step data args cutoff altered st n of
        None \<Rightarrow> None
      | Some v \<Rightarrow>
          (case EM_body L step data args cutoff (EM_cutoff_nd L (st_gmm st) cutoff)
                  (EM_shift_cutoff L (st_gmm st) cutoff) altered v n of
             Inr (Continue v') \<Rightarrow> Some v'
           | _ \<Rightarrow> None))"

section \<open>Split and merge\<close>

text \<open>
  The determinant, by expansion along the first row; \<open>np.linalg.det\<close> raises for a
  matrix that is not square.
\<close>

function det :: "mat \<Rightarrow> fl" where
  "det [] = Fin 1"
| "det (r # rs) =
     fsum (map (\<lambda>j. fmul (fmul (if even j then Fin 1 else Fin (- 1)) (r ! j))
                       (det (map (\<lambda>row. take j row @ drop (Suc j) row) rs)))
             [0..<length r])"
  by pat_completeness auto
termination
  by (relation "measure length") auto

definition np_det :: "mat \<Rightarrow> error + fl" where
  "np_det m = (if list_all (\<lambda>r. length r = length m) m then Inr (det m) else Inl LinAlgError)"

text \<open>
  \<open>np.union1d\<close> of two neighbourhoods: the sorted union without duplicates. A boolean
  mask counts as its values 0 and 1 next to an index array; a null neighbourhood cannot
  be concatenated.
\<close>

fun union1d :: "nbh \<Rightarrow> nbh \<Rightarrow> error + nbh" where
  "union1d (Idx a) (Idx b) = Inr (Idx (sort (remdups (a @ b))))"
| "union1d (Mask a) (Mask b) = Inr (Mask (sort (remdups (a @ b))))"
| "union1d (Idx a) (Mask b) =
     Inr (Idx (sort (remdups (a @ map (\<lambda>x. if x then 1 else 0) b))))"
| "union1d (Mask a) (Idx b) =
     Inr (Idx (sort (remdups (map (\<lambda>x. if x then 1 else 0) a @ b))))"
| "union1d u v = Inl ValueError"

text \<open>\<open>U[k].copy()\<close>: \<open>None\<close> has no such method.\<close>

fun copy_nbh :: "nbh \<Rightarrow> error + nbh" where
  "copy_nbh Null = Inl AttributeError"
| "copy_nbh u = Inr u"

text \<open>
  \<open>_update_snm\<close>: merge the components \<open>altered[0]\<close> and \<open>altered[1]\<close> into the first,
  split \<open>altered[2]\<close> into the second and the third. \<open>altered\<close> holds three indices.
\<close>

definition update_snm ::
  "numlib \<Rightarrow> gmm \<Rightarrow> nat list \<Rightarrow> nbh list \<Rightarrow> nat \<Rightarrow> bool \<Rightarrow> error + (gmm \<times> nbh list)" where
  "update_snm L g altered U N cleanup =
     (if length altered < 3 \<or> \<not> list_all (\<lambda>i. i < gmm_K g) altered then Inl IndexError
      else
        let a0 = altered ! 0; a1 = altered ! 1; a2 = altered ! 2;
            D = gmm_D g;
            A = map (\<lambda>a. fmul a (Fin (real N))) (amp g);
            amp1 = (amp g)[a0 := fsum [amp g ! a0, amp g ! a1]]
        in
        ebind
          (if \<not> cleanup then
             ebind (union1d (U ! a0) (U ! a1)) (\<lambda>u.
               let s01 = fsum [A ! a0, A ! a1]
               in Inr ((mean g)[a0 := map (\<lambda>x. fdiv x s01)
                           (vsum D [map (\<lambda>x. fmul x (A ! a0)) (mean g ! a0),
                                    map (\<lambda>x. fmul x (A ! a1)) (mean g ! a1)])],
                       (covar g)[a0 := map (map (\<lambda>x. fdiv x s01))
                           (msum D [map (map (\<lambda>x. fmul x (A ! a0))) (covar g ! a0),
                                    map (map (\<lambda>x. fmul x (A ! a1))) (covar g ! a1)])],
                       U[a0 := u]))
           else Inr ((mean g)[a0 := mean g ! a1], (covar g)[a0 := covar g ! a1],
                     U[a0 := U ! a1]))
          (\<lambda>(mean1, covar1, U1).
             let half = fdiv (amp1 ! a2) (Fin 2);
                 amp2 = amp1[a1 := half, a2 := half];
                 (u, radius2, rotation) = np_svd L (covar1 ! a2)
             in if radius2 = [] \<or> rotation = [] then Inl IndexError
                else
                  let dl = map (\<lambda>r. fdiv (fmul (fsqrt (radius2 ! 0)) r) (Fin 4)) (rotation ! 0);
                      mean2 = mean1[a1 := vsub (mean1 ! a2) dl];
                      mean3 = mean2[a2 := vadd (mean2 ! a2) dl]
                  in if D = 0 then Inl ZeroDivisionError
                     else
                       ebind (np_det (covar1 ! a2)) (\<lambda>d.
                         let c = mscale (froot D d) (eye D);
                             covar2 = fold (\<lambda>i cs. cs[i := c]) (drop 1 altered) covar1
                         in ebind (copy_nbh (U1 ! a2)) (\<lambda>u2.
                              Inr (g\<lparr>amp := amp2, mean := mean3, covar := covar2\<rparr>,
                                   U1[a1 := u2])))))"

section \<open>The fit\<close>

text \<open>
  \<open>_findSNMComponents\<close> is a parameter of the fit: from the state and \<open>N + N2\<close> it
  chooses the three components \<open>altered\<close> and says whether the merge is a cleanup, or
  raises.
\<close>

type_synonym 'r find_snm = "'r em_state \<Rightarrow> nat \<Rightarrow> error + (nat list \<times> bool)"

text \<open>
  The loop \<open>while split_n_merge and gmm.K >= 3\<close> of \<open>fit\<close>. \<open>split_n_merge\<close> is a truth
  value or a count that is decremented; a negative count is never exhausted, so the
  loop is a partial function. \<open>NN\<close> is the sum \<open>N + N2\<close> of the first run of \<open>_EM\<close>.
\<close>

partial_function (option) snm_loop ::
  "numlib \<Rightarrow> 'r emstep \<Rightarrow> 'r find_snm \<Rightarrow> vec list \<Rightarrow> 'r fit_args \<Rightarrow> real option \<Rightarrow> nat
     \<Rightarrow> int \<Rightarrow> 'r em_state \<Rightarrow> fl \<Rightarrow> (error + (fl \<times> 'r em_state)) option" where
  "snm_loop L step find_snm data args cutoff NN split_n_merge st log_L =
     (if split_n_merge \<noteq> 0 \<and> 3 \<le> gmm_K (st_gmm st) then
        (case sequence (map copy_nbh (st_U st)) of
           Inl e \<Rightarrow> Some (Inl e)
         | Inr U_backup \<Rightarrow>
        (case find_snm st NN of
           Inl e \<Rightarrow> Some (Inl e)
         | Inr (altered, cleanup) \<Rightarrow>
        (case update_snm L (st_gmm st) altered (st_U st) NN cleanup of
           Inl e \<Rightarrow> Some (Inl e)
         | Inr (g1, U1) \<Rightarrow>
        (case EM L step data args cutoff (Some altered) (st\<lparr>st_gmm := g1, st_U := U1\<rparr>) of
           Inl e \<Rightarrow> Some (Inl e)
         | Inr r1 \<Rightarrow>
        (case EM L step data args cutoff None (res_state r1) of
           Inl e \<Rightarrow> Some (Inl e)
         | Inr r2 \<Rightarrow>
             if fge log_L (res_log_L r2) then
               Some (Inr (log_L, (res_state r2)\<lparr>st_gmm := st_gmm st, st_U := U_backup\<rparr>))
             else
               snm_loop L step find_snm data args cutoff NN (split_n_merge - 1)
                 (res_state r2) (res_log_L r2))))))
      else Some (Inr (log_L, st)))"

text \<open>
  \<open>fit\<close>. The initialisation callback changes the mixture and the generator. The result
  is \<open>(log_L, U)\<close> and the state the fit leaves; \<open>None\<close> when the loop above does not end.
\<close>

record 'r fit_kwargs =
  kw_args :: "'r fit_args"
  kw_cutoff :: "real option"
  kw_init_callback :: "(gmm \<Rightarrow> vec list \<Rightarrow> noise \<Rightarrow> 'r \<Rightarrow> gmm \<times> 'r) option"
  kw_background :: "background option"
  kw_split_n_merge :: int
  kw_rng :: 'r

definition fit ::
  "numlib \<Rightarrow> 'r emstep \<Rightarrow> 'r find_snm \<Rightarrow> gmm \<Rightarrow> vec list \<Rightarrow> 'r fit_kwargs
     \<Rightarrow> (error + (fl \<times> nbh list \<times> 'r em_state)) option" where
  "fit L step find_snm g data kw =
     (let args = kw_args kw;
          (g1, rng1) = (case kw_init_callback kw of
                          None \<Rightarrow> (g, kw_rng kw)
                        | Some init \<Rightarrow> init g data (arg_covar args) (kw_rng kw))
      in if arg_covar args \<noteq> NoNoise \<and> arg_sel_callback args \<noteq> None
            \<and> arg_covar_callback args = None
         then Some (Inl RuntimeError)
         else
           let cutoff = (if kw_background kw \<noteq> None \<and> kw_cutoff kw \<noteq> None then None
                         else kw_cutoff kw);
               st0 = \<lparr> st_gmm = g1,
                       st_U = replicate (gmm_K g1) Null,
                       st_log_p = replicate (gmm_K g1) [],
                       st_T_inv = replicate (gmm_K g1) TNone,
                       st_log_S = replicate (length data) (Fin 0),
                       st_H = replicate (length data) False,
                       st_bg = kw_background kw,
                       st_rng = rng1 \<rparr>
           in case EM L step data args cutoff None st0 of
                Inl e \<Rightarrow> Some (Inl e)
              | Inr r \<Rightarrow>
                  (case snm_loop L step find_snm data args cutoff (res_N r + res_N2 r)
                          (kw_split_n_merge kw) (res_state r) (res_log_L r) of
                     None \<Rightarrow> None
                   | Some (Inl e) \<Rightarrow> Some (Inl e)
                   | Some (Inr (log_L, st)) \<Rightarrow> Some (Inr (log_L, st_U st, st))))"

section \<open>Cross-validation\<close>

text \<open>
  \<open>GMM.logL\<close>, which evaluates the fitted mixture on the held-out samples, is a parameter.
  \<open>lcv\<close> starts uninitialised (\<open>None\<close> in every place).
\<close>

type_synonym logl = "gmm \<Rightarrow> vec list \<Rightarrow> noise \<Rightarrow> error + fl list"

definition same_shape :: "gmm \<Rightarrow> gmm \<Rightarrow> bool" where
  "same_shape g g0 =
     (length (amp g) = length (amp g0) \<and> map length (mean g) = map length (mean g0) \<and>
      map (map length) (covar g) = map (map length) (covar g0))"

text \<open>\<open>lcv[mask] = values\<close>.\<close>

fun put_mask :: "bool list \<Rightarrow> fl list \<Rightarrow> fl option list \<Rightarrow> fl option list" where
  "put_mask (True # m) (x # xs) (y # ys) = Some x # put_mask m xs ys"
| "put_mask (False # m) xs (y # ys) = y # put_mask m xs ys"
| "put_mask m xs ys = ys"

definition select_noise :: "bool list \<Rightarrow> noise \<Rightarrow> noise" where
  "select_noise m cov = (case cov of PerSample cs \<Rightarrow> PerSample (pick m cs) | c \<Rightarrow> c)"

text \<open>
  One fold of \<open>cv_fit\<close>: the generator is set back, the fit runs on the samples outside
  the fold and changes the mixture and the background, the held-out likelihood is stored,
  and the mixture and the background's amplitude are written back from the copies made
  at entry. The assignment \<open>gmm.amp[:,] = gmm0.amp[:]\<close> needs arrays of one shape; a fit
  only writes into the arrays, so the shapes do agree, and the model raises otherwise.
\<close>

definition cv_fold ::
  "numlib \<Rightarrow> 'r emstep \<Rightarrow> 'r find_snm \<Rightarrow> logl \<Rightarrow> gmm \<Rightarrow> fl option \<Rightarrow> vec list \<Rightarrow> nat
     \<Rightarrow> 'r fit_kwargs \<Rightarrow> nat \<Rightarrow> gmm \<times> background option \<times> fl option list
     \<Rightarrow> (error + (gmm \<times> background option \<times> fl option list)) option" where
  "cv_fold L step find_snm logL gmm0 bg_amp0 data nfolds kw i s =
     (case s of (g, bg, lcv) \<Rightarrow>
        let mask = map (\<lambda>j. j mod nfolds = i) [0..<length data];
            unmask = map Not mask;
            covar = arg_covar (kw_args kw);
            kw1 = kw\<lparr> kw_args := (kw_args kw)\<lparr>arg_covar := select_noise unmask covar\<rparr>,
                      kw_background := bg \<rparr>
        in case fit L step find_snm g (pick unmask data) kw1 of
             None \<Rightarrow> None
           | Some (Inl e) \<Rightarrow> Some (Inl e)
           | Some (Inr (log_L, U, st)) \<Rightarrow>
               (case logL (st_gmm st) (pick mask data) (select_noise mask covar) of
                  Inl e \<Rightarrow> Some (Inl e)
                | Inr vals \<Rightarrow>
                    if length vals \<noteq> length (filter id mask) then Some (Inl ValueError)
                    else if \<not> same_shape (st_gmm st) gmm0 then Some (Inl ValueError)
                    else Some (Inr (gmm0,
                           (case bg_amp0 of
                              None \<Rightarrow> st_bg st
                            | Some a \<Rightarrow> map_option (\<lambda>b. b\<lparr>bg_amp := a\<rparr>) (st_bg st)),
                           put_mask mask vals lcv))))"

fun cv_folds ::
  "numlib \<Rightarrow> 'r emstep \<Rightarrow> 'r find_snm \<Rightarrow> logl \<Rightarrow> gmm \<Rightarrow> fl option \<Rightarrow> vec list \<Rightarrow> nat
     \<Rightarrow> 'r fit_kwargs \<Rightarrow> nat list \<Rightarrow> gmm \<times> background option \<times> fl option list
     \<Rightarrow> (error + (gmm \<times> background option \<times> fl option list)) option" where
  "cv_folds L step find_snm logL gmm0 bg_amp0 data nfolds kw [] s = Some (Inr s)"
| "cv_folds L step find_snm logL gmm0 bg_amp0 data nfolds kw (i # is) s =
     (case cv_fold L step find_snm logL gmm0 bg_amp0 data nfolds kw i s of
        None \<Rightarrow> None
      | Some (Inl e) \<Rightarrow> Some (Inl e)
      | Some (Inr s') \<Rightarrow> cv_folds L step find_snm logL gmm0 bg_amp0 data nfolds kw is s')"

text \<open>
  \<open>cv_fit\<close>: the held-out log-likelihoods \<open>lcv\<close>, with the mixture and the background as
  the call leaves them. Every fold starts from the generator state \<open>kw_rng kw\<close>.
\<close>

definition cv_fit ::
  "numlib \<Rightarrow> 'r emstep \<Rightarrow> 'r find_snm \<Rightarrow> logl \<Rightarrow> gmm \<Rightarrow> vec list \<Rightarrow> nat \<Rightarrow> 'r fit_kwargs
     \<Rightarrow> (error + (fl option list \<times> gmm \<times> background option)) option" where
  "cv_fit L step find_snm logL g data nfolds kw =
     (if kw_init_callback kw \<noteq> None then Some (Inl RuntimeError)
      else
        let gmm0 = g;
            bg_amp0 = map_option bg_amp (kw_background kw)
        in case cv_folds L step find_snm logL gmm0 bg_amp0 data nfolds kw [0..<nfolds]
                  (g, kw_background kw, replicate (length data) None) of
             None \<Rightarrow> None
           | Some (Inl e) \<Rightarrow> Some (Inl e)
           | Some (Inr (g', bg', lcv)) \<Rightarrow> Some (Inr (lcv, g', bg')))"

text \<open>
  The background, where there is one, has the amplitude \<open>a0\<close> (where an amplitude was
  saved at entry).
\<close>

definition bg_amp_kept :: "fl option \<Rightarrow> background option \<Rightarrow> bool" where
  "bg_amp_kept a0 bg =
     (case a0 of None \<Rightarrow> True
               | Some a \<Rightarrow> (case bg of None \<Rightarrow> True | Some b \<Rightarrow> bg_amp b = a))"

section \<open>Drawing samples\<close>








text \<open>
  A point is accepted by a selection \<open>P\<close> when it passes it, or, with the inversion flag,
  when it fails it.
\<close>

definition accepted :: "(vec \<Rightarrow> bool) \<Rightarrow> bool \<Rightarrow> vec \<Rightarrow> bool" where
  "accepted P invert_callback x = (if invert_callback then \<not> P x else P x)"


text \<open>The invariant of the amplitudes: none is negative, and they sum to one.\<close>

definition normalised :: "fl list \<Rightarrow> bool" where
  "normalised a = (list_all nonneg a \<and> fsum a = Fin 1)"

section \<open>A one-dimensional instance of the library\<close>

text \<open>
  For D = 1 the library functions are elementary: the inverse of \<open>[[a]]\<close> is
  \<open>[[1/a]]\<close>, its only singular value is \<open>a\<close> (for \<open>a \<ge> 0\<close>), and the chi-square
  cutoff that corresponds to \<open>c\<close> standard deviations is \<open>c\<^sup>2\<close>. The two scipy functions
  are represented by a pair of functions with this composition. The instance is used
  to run the model on concrete inputs.
\<close>

fun inv_1d :: "mat \<Rightarrow> mat option" where
  "inv_1d [[Fin a]] = (if a = 0 then None else Some [[Fin (1 / a)]])"
| "inv_1d m = None"

fun slogdet_1d :: "mat \<Rightarrow> fl \<times> fl" where
  "slogdet_1d [[Fin a]] = (Fin (sgn a), flog (Fin \<bar>a\<bar>))"
| "slogdet_1d m = (NaN, NaN)"

definition lib_1d :: numlib where
  "lib_1d = \<lparr>
     np_inv = inv_1d,
     np_slogdet = slogdet_1d,
     np_svd = (\<lambda>m. ([[Fin 1]], concat m, [[Fin 1]])),
     norm_cdf = (\<lambda>c. fdiv (fadd c (Fin 1)) (Fin 2)),
     chi2_ppf = (\<lambda>p D. fmul p p) \<rparr>"

text \<open>One component at the origin with unit variance.\<close>

definition gmm_unit :: gmm where
  "gmm_unit = \<lparr> amp = [Fin 1], mean = [[Fin 0]], covar = [[[Fin 1]]] \<rparr>"

text \<open>Two components of equal weight at 0 and 10 with unit variance.\<close>

definition gmm_two :: gmm where
  "gmm_two = \<lparr> amp = [Fin (1 / 2), Fin (1 / 2)], mean = [[Fin 0], [Fin 10]],
               covar = [[[Fin 1]], [[Fin 1]]] \<rparr>"

section \<open>Two runs of the driver in one dimension\<close>

text \<open>
  Two step functions for running the driver on a concrete input. The first moves the
  mean to \<open>it + 2\<close>, sets the neighbourhood to the first sample and the amplitude of a
  background to 1/2, and reports the log-likelihood 0 in iteration 0 and -1 afterwards,
  so that iteration 1 is a regression.
  The second leaves the mixture alone and reports a log-likelihood that grows by one
  in every iteration, so that the run never converges.
\<close>

definition step_demo :: "unit emstep" where
  "step_demo st data args cutoff_nd N2 altered it =
     Inr ((if it = 0 then Fin 0 else Fin (- 1), 1, 0),
          st\<lparr>st_gmm := (st_gmm st)\<lparr>mean := [[Fin (real it + 2)]]\<rparr>, st_U := [Idx [0]],
             st_bg := map_option (\<lambda>b. b\<lparr>bg_amp := Fin (1 / 2)\<rparr>) (st_bg st)\<rparr>)"


definition args_demo :: "unit fit_args" where
  "args_demo = \<lparr> arg_covar = NoNoise, arg_w = 0, arg_sel_callback = None,
                 arg_covar_callback = None, arg_tol = 1 / 1000 \<rparr>"

definition state_unit :: "unit em_state" where
  "state_unit = \<lparr> st_gmm = gmm_unit, st_U = [Null], st_log_p = [[]], st_T_inv = [TNone],
                  st_log_S = [Fin 0], st_H = [False], st_bg = None, st_rng = () \<rparr>"

definition gmm_at :: "real \<Rightarrow> gmm" where
  "gmm_at m = \<lparr> amp = [Fin 1], mean = [[Fin m]], covar = [[[Fin 1]]] \<rparr>"

text \<open>The keyword arguments of a fit that asks for one round of split and merge.\<close>

definition kwargs_demo :: "unit fit_kwargs" where
  "kwargs_demo = \<lparr> kw_args = args_demo, kw_cutoff = None, kw_init_callback = None,
                   kw_background = None, kw_split_n_merge = 1, kw_rng = () \<rparr>"

definition find_none :: "unit find_snm" where
  "find_none st NN = Inl ValueError"

section \<open>A split and merge in two dimensions\<close>

text \<open>
  Three components in the plane with diagonal covariances. For a diagonal matrix with
  a non-negative, descending diagonal the singular values are the diagonal entries and
  the singular vectors the unit vectors.
\<close>

definition lib_diag2 :: numlib where
  "lib_diag2 = \<lparr>
     np_inv = (\<lambda>m. None),
     np_slogdet = (\<lambda>m. (NaN, NaN)),
     np_svd = (\<lambda>m. (eye 2, [m ! 0 ! 0, m ! 1 ! 1], eye 2)),
     norm_cdf = (\<lambda>c. NaN),
     chi2_ppf = (\<lambda>p D. NaN) \<rparr>"

definition gmm_three :: gmm where
  "gmm_three = \<lparr> amp = [Fin (1 / 4), Fin (1 / 4), Fin (1 / 2)],
                 mean = [[Fin 0, Fin 0], [Fin 1, Fin 0], [Fin 5, Fin 5]],
                 covar = [[[Fin 1, Fin 0], [Fin 0, Fin 1]], [[Fin 1, Fin 0], [Fin 0, Fin 1]],
                          [[Fin 4, Fin 0], [Fin 0, Fin 4]]] \<rparr>"

definition gmm_three_snm :: gmm where
  "gmm_three_snm = \<lparr> amp = [Fin (1 / 2), Fin (1 / 4), Fin (1 / 4)],
       mean = [[Fin (1 / 2), Fin 0], [Fin (9 / 2), Fin 5], [Fin (11 / 2), Fin 5]],
       covar = [[[Fin 1, Fin 0], [Fin 0, Fin 1]], [[Fin 4, Fin 0], [Fin 0, Fin 4]],
                [[Fin 4, Fin 0], [Fin 0, Fin 4]]] \<rparr>"

section \<open>A cross-validation with a background\<close>

text \<open>
  A background of amplitude 0 on the interval from 0 to 10, the keyword arguments of a
  fit with this background, and a likelihood function that returns zeros.
\<close>

definition bg_demo :: background where
  "bg_demo = \<lparr> bg_amp = Fin 0, footprint = ([Fin 0], [Fin 10]), adjust_amp = True,
               amp_max = Fin 1 \<rparr>"

definition kwargs_bg :: "unit fit_kwargs" where
  "kwargs_bg = \<lparr> kw_args = args_demo, kw_cutoff = None, kw_init_callback = None,
                 kw_background = Some bg_demo, kw_split_n_merge = 0, kw_rng = () \<rparr>"

definition logL_zero :: logl where
  "logL_zero g xs cov = Inr (map (\<lambda>x. Fin 0) xs)"

section \<open>A generator that counts\<close>



section \<open>Basic facts\<close>

lemma ebind_simps [simp]:
  "ebind (Inl e) f = Inl e"
  "ebind (Inr x) f = f x"
  by (simp_all add: ebind_def)

lemma ebind_eq_Inr:
  "ebind r f = Inr y \<longleftrightarrow> (\<exists>x. r = Inr x \<and> f x = Inr y)"
  by (cases r) simp_all

lemma upt_0_3: "[0..<3] = [0, 1, 2]"
  by code_simp

lemma pick_map_self: "pick (map Q ys) ys = filter Q ys"
  by (induction ys) (simp_all add: pick_def)

lemma sequence_map_Inr:
  "sequence (map h xs) = Inr ys \<Longrightarrow> list_all2 (\<lambda>x y. h x = Inr y) xs ys"
proof (induction xs arbitrary: ys)
  case Nil
  then show ?case by simp
next
  case (Cons x xs)
  then show ?case
    by (cases "h x"; cases "sequence (map h xs)") auto
qed

lemma inv_or_raise_Inr: "inv_or_raise L m = Inr t \<longleftrightarrow> np_inv L m = Some t"
  by (auto simp: inv_or_raise_def split: option.splits)

lemma take_nbh_candidates:
  assumes "take_nbh U_k xs = Inr ys" and "U_k = Null \<or> (\<exists>js. U_k = Idx js)"
  shows "ys = map (\<lambda>i. xs ! i) (candidates U_k (length xs))"
  using assms by (auto simp: candidates_def map_nth split: if_splits)

section \<open>Truncation of the neighbourhoods\<close>

text \<open>
  C3. With a cutoff, the E-step of component \<open>k\<close> keeps exactly those candidates (the
  samples of its neighbourhood, or all samples when the neighbourhood is null) whose
  squared Mahalanobis distance to the component's mean, under the component's covariance
  plus the sample's noise covariance when there is one, is strictly below the cutoff, in
  their order. A candidate at or above the cutoff, or with a NaN distance, is dropped.
\<close>

theorem Esum_keeps_below_cutoff:
  assumes E: "Esum L k U_k g data cov (Some c) = Inr (lp, U', T')"
    and U: "U_k = Null \<or> (\<exists>js. U_k = Idx js)"
  shows "U' = Idx (filter (below_cutoff L g k data cov c) (candidates U_k (length data)))"
proof -
  let ?cands = "candidates U_k (length data)"
  from E obtain xs where xs: "take_nbh U_k data = Inr xs"
    by (auto simp: Esum_def ebind_eq_Inr split: if_splits)
  have xs_eq: "xs = map (\<lambda>i. data ! i) ?cands"
    using take_nbh_candidates[OF xs U] .
  let ?dx = "map (\<lambda>x. vsub x (mean g ! k)) xs"
  from E xs obtain Tk chi2 where
    chi2: "(case cov of
             NoNoise \<Rightarrow>
               ebind (inv_or_raise L (covar g ! k)) (\<lambda>ci.
                 Inr (TNone, map (\<lambda>d. quadform d ci d) ?dx))
           | Shared c \<Rightarrow>
               ebind (inv_or_raise L (madd (covar g ! k) c)) (\<lambda>t.
                 Inr (TOne t, map (\<lambda>d. quadform d t d) ?dx))
           | PerSample cs \<Rightarrow>
               ebind (take_nbh U_k cs) (\<lambda>cs1.
               ebind (reshape_n (length ?dx) cs1) (\<lambda>cs2.
               ebind (sequence (map (\<lambda>c. inv_or_raise L (madd (covar g ! k) c)) cs2)) (\<lambda>ts.
                 Inr (TEach ts, map2 (\<lambda>d t. quadform d t d) ?dx ts))))) = Inr (Tk, chi2)"
    and U': "U' = Idx (pick (map (\<lambda>x. flt x c) chi2)
                  (case U_k of Null \<Rightarrow> [0..<length chi2] | Idx js \<Rightarrow> js | Mask m \<Rightarrow> []))"
    using U
    by (auto simp: Esum_def ebind_eq_Inr Let_def case_prod_beta flatnonzero_def
        split: if_splits)
  have "map (\<lambda>x. flt x c) chi2 = map (below_cutoff L g k data cov c) ?cands"
  proof (cases cov)
    case NoNoise
    with chi2 show ?thesis
      by (auto simp: ebind_eq_Inr inv_or_raise_Inr xs_eq below_cutoff_def mahalanobis2_def Let_def)
  next
    case (Shared c0)
    with chi2 show ?thesis
      by (auto simp: ebind_eq_Inr inv_or_raise_Inr xs_eq below_cutoff_def mahalanobis2_def Let_def)
  next
    case (PerSample cs)
    with chi2 obtain cs1 ts where cs1: "take_nbh U_k cs = Inr cs1"
      and len: "length cs1 = length xs"
      and ts: "sequence (map (\<lambda>c. inv_or_raise L (madd (covar g ! k) c)) cs1) = Inr ts"
      and c2: "chi2 = map2 (\<lambda>d t. quadform d t d) ?dx ts"
      by (auto simp: ebind_eq_Inr reshape_n_def split: if_splits)
    have cs1_eq: "cs1 = map (\<lambda>i. cs ! i) (candidates U_k (length cs))"
      using take_nbh_candidates[OF cs1 U] .
    have same: "candidates U_k (length cs) = ?cands"
      using U len cs1_eq xs_eq by (auto simp: candidates_def)
    have all2: "list_all2 (\<lambda>c t. np_inv L (madd (covar g ! k) c) = Some t) cs1 ts"
      using sequence_map_Inr[OF ts] by (simp add: inv_or_raise_Inr)
    have lts: "length ts = length ?cands"
      using all2 cs1_eq same by (auto dest: list_all2_lengthD)
    show ?thesis
    proof (rule nth_equalityI)
      show "length (map (\<lambda>x. flt x c) chi2) = length (map (below_cutoff L g k data cov c) ?cands)"
        using c2 lts xs_eq by simp
    next
      fix j assume "j < length (map (\<lambda>x. flt x c) chi2)"
      then have j: "j < length ?cands" using c2 lts xs_eq by simp
      have "np_inv L (madd (covar g ! k) (cs1 ! j)) = Some (ts ! j)"
        using all2 j lts by (auto simp: list_all2_conv_all_nth)
      moreover have "cs1 ! j = cs ! (?cands ! j)"
        using cs1_eq same j by simp
      ultimately show "map (\<lambda>x. flt x c) chi2 ! j = map (below_cutoff L g k data cov c) ?cands ! j"
        using j lts c2 xs_eq PerSample
        by (simp add: below_cutoff_def mahalanobis2_def Let_def)
    qed
  qed
  moreover from this have "length chi2 = length ?cands"
    by (metis length_map)
  ultimately show ?thesis using U' U by (auto simp: pick_map_self candidates_def)
qed

text \<open>
  Three samples at 0, 3 and 1 (distances 0, 9 and 1) and the cutoff 9: the sample at
  distance 9 is dropped.
\<close>

theorem Esum_keeps_below_cutoff_witness:
  "\<exists>lp T'. Esum lib_1d 0 Null gmm_unit [[Fin 0], [Fin 3], [Fin 1]] NoNoise (Some (Fin 9))
      = Inr (lp, Idx [0, 2], T')"
proof -
  obtain lp U' T' where
    E: "Esum lib_1d 0 Null gmm_unit [[Fin 0], [Fin 3], [Fin 1]] NoNoise (Some (Fin 9))
          = Inr (lp, U', T')"
    by (simp add: Esum_def lib_1d_def gmm_unit_def gmm_K_def inv_or_raise_def Let_def
        case_prod_beta)
  have "filter (below_cutoff lib_1d gmm_unit 0 [[Fin 0], [Fin 3], [Fin 1]] NoNoise (Fin 9))
          (candidates Null 3) = [0, 2]"
    by (simp add: below_cutoff_def mahalanobis2_def lib_1d_def gmm_unit_def candidates_def
        vsub_def fsub_def quadform_def fsum_def upt_0_3 Let_def)
  moreover have "length [[Fin 0], [Fin 3], [Fin 1]] = (3::nat)"
    by simp
  ultimately show ?thesis
    using Esum_keeps_below_cutoff [OF E] E by (simp only: simp_thms) blast
qed



section \<open>The loop of the driver\<close>

declare EM_loop.simps [simp del]


lemma EM_loop_break:
  "it < maxiter \<Longrightarrow> EM_body L step data args cutoff cnd sc altered v it = Inr (Break v') \<Longrightarrow>
   EM_loop L step data args cutoff cnd sc altered maxiter v it = Inr (v', Suc it)"
  by (subst EM_loop.simps) simp

lemma EM_loop_continue:
  "it < maxiter \<Longrightarrow> EM_body L step data args cutoff cnd sc altered v it = Inr (Continue v') \<Longrightarrow>
   EM_loop L step data args cutoff cnd sc altered maxiter v it =
   EM_loop L step data args cutoff cnd sc altered maxiter v' (Suc it)"
  by (subst EM_loop.simps) simp



lemma EM_head_loop:
  "EM_head L step data args cutoff altered st n = Some v \<Longrightarrow> n \<le> EM_maxiter (st_gmm st) \<Longrightarrow>
   EM_loop L step data args cutoff (EM_cutoff_nd L (st_gmm st) cutoff)
     (EM_shift_cutoff L (st_gmm st) cutoff) altered (EM_maxiter (st_gmm st)) (EM_init st) 0 =
   EM_loop L step data args cutoff (EM_cutoff_nd L (st_gmm st) cutoff)
     (EM_shift_cutoff L (st_gmm st) cutoff) altered (EM_maxiter (st_gmm st)) v n"
proof (induction n arbitrary: v)
  case 0
  then show ?case by simp
next
  case (Suc n)
  from Suc.prems(1) obtain u where u: "EM_head L step data args cutoff altered st n = Some u"
    and b: "EM_body L step data args cutoff (EM_cutoff_nd L (st_gmm st) cutoff)
              (EM_shift_cutoff L (st_gmm st) cutoff) altered u n = Inr (Continue v)"
    by (auto split: option.splits sum.splits outcome.splits)
  from Suc.prems(2) have n: "n < EM_maxiter (st_gmm st)" by simp
  with Suc.IH[OF u] b show ?case by (simp add: EM_loop_continue)
qed






lemma shift2_1d: "shift2 lib_1d (gmm_at a) (gmm_at b) = Inr [Fin ((a - b) * (a - b))]"
  by (simp add: shift2_def gmm_at_def lib_1d_def inv_or_raise_def vsub_def fsub_def
      quadform_def fsum_def)

lemma chi2_cutoff_1d: "chi2_cutoff lib_1d D (Fin c) = Fin (c * c)"
  by (simp add: chi2_cutoff_def lib_1d_def fsub_def Let_def field_simps)






















section \<open>The parameter update\<close>

lemma upt_0_1: "[0..<1] = [0]" by simp
lemma upt_0_2: "[0..<2] = [0, 1]" by code_simp

text \<open>
  C1 fails where no sample supports any component. One component at 0 with unit
  variance, the single sample 10 and the chi-square cutoff 9 (3 sigma in one
  dimension): the E-step keeps no sample, the M-step sums are zero and \<open>N = 0\<close>, and
  \<open>_update\<close> computes the amplitude \<open>0 / 0\<close>. The iteration completes (numpy warns and
  does not raise) with the amplitude NaN, which is not an amplitude vector that is
  non-negative and sums to one.
\<close>

theorem update_without_support:
  "Esum lib_1d 0 Null gmm_unit [[Fin 10]] NoNoise (Some (Fin 9)) = Inr ([], Idx [], TNone)
   \<and> Mstep gmm_unit [Idx []] [[]] [TNone] [Fin 0] [False] [[Fin 10]] None
       = Inr ([Fin 0], [[Fin 0]], [[[Fin 0]]], 0, None)
   \<and> update gmm_unit [Fin 0] [[Fin 0]] [[[Fin 0]]] 0 None [False] None None None 0 None None 0
        None None
       = Inr (\<lparr> amp = [NaN], mean = [[NaN]], covar = [[[NaN]]] \<rparr>, None)
   \<and> \<not> normalised [NaN]"
proof -
  have 1: "Esum lib_1d 0 Null gmm_unit [[Fin 10]] NoNoise (Some (Fin 9)) = Inr ([], Idx [], TNone)"
    by (simp add: Esum_def lib_1d_def gmm_unit_def gmm_K_def inv_or_raise_def Let_def
        vsub_def fsub_def quadform_def fsum_def pick_def flatnonzero_def)
  have 2: "Mstep gmm_unit [Idx []] [[]] [TNone] [Fin 0] [False] [[Fin 10]] None
       = Inr ([Fin 0], [[Fin 0]], [[[Fin 0]]], 0, None)"
    by (simp add: Mstep_def Msums_def gmm_unit_def gmm_K_def gmm_D_def put_scalar_def
        put_vec_def put_mat_def Let_def)
  have 3: "update gmm_unit [Fin 0] [[Fin 0]] [[[Fin 0]]] 0 None [False] None None None 0 None None 0
        None None
       = Inr (\<lparr> amp = [NaN], mean = [[NaN]], covar = [[[NaN]]] \<rparr>, None)"
    by (simp add: update_def gmm_unit_def gmm_K_def gmm_D_def shapes_ok_def shapes2_ok_def
        addA_def addM_def addC_def add0_def assign_changed_def fsum_def inf_signed_def Let_def)
  have 4: "\<not> normalised [NaN]"
    by (simp add: normalised_def nonneg_def fge_def)
  from 1 2 3 4 show ?thesis by simp
qed

text \<open>
  C4 holds for the M-step and fails for the update. For a component with an empty
  neighbourhood \<open>_Msums\<close> returns the zeros \<open>(0, 0, 0)\<close> without raising; \<open>_update\<close> then
  divides the zero sums by the zero effective count, so that the component's mean
  becomes NaN, and its covariance NaN (for \<open>w = 0\<close>) or the floor term alone (for
  \<open>w > 0\<close>, here \<open>w = 1\<close>), instead of staying at 0 and 1.
\<close>

theorem update_empty_component:
  "Msums 0 (Idx []) [] TNone gmm_two [[Fin 10], [Fin 11]] [Fin 0, Fin 0]
     = Inr (Scalar (Fin 0), Scalar (Fin 0), Scalar (Fin 0))
   \<and> put_vec 1 (Scalar (Fin 0)) = [Fin 0]
   \<and> put_mat 1 (Scalar (Fin 0)) = [[Fin 0]]
   \<and> update gmm_two [Fin 0, Fin 2] [[Fin 0], [Fin 21]] [[[Fin 0]], [[Fin (1 / 2)]]] 2 None
        [True, True] None None None 0 None None 0 None None
       = Inr (\<lparr> amp = [Fin 0, Fin 1], mean = [[NaN], [Fin (21 / 2)]],
                covar = [[[NaN]], [[Fin (1 / 4)]]] \<rparr>, None)
   \<and> update gmm_two [Fin 0, Fin 2] [[Fin 0], [Fin 21]] [[[Fin 0]], [[Fin (1 / 2)]]] 2 None
        [True, True] None None None 0 None None 1 None None
       = Inr (\<lparr> amp = [Fin 0, Fin 1], mean = [[NaN], [Fin (21 / 2)]],
                covar = [[[Fin 2]], [[Fin (5 / 6)]]] \<rparr>, None)"
proof -
  have 1: "Msums 0 (Idx []) [] TNone gmm_two [[Fin 10], [Fin 11]] [Fin 0, Fin 0]
     = Inr (Scalar (Fin 0), Scalar (Fin 0), Scalar (Fin 0))"
    by (simp add: Msums_def)
  have 2: "put_vec 1 (Scalar (Fin 0)) = [Fin 0]" "put_mat 1 (Scalar (Fin 0)) = [[Fin 0]]"
    by (simp_all add: put_vec_def put_mat_def)
  have 3: "update gmm_two [Fin 0, Fin 2] [[Fin 0], [Fin 21]] [[[Fin 0]], [[Fin (1 / 2)]]] 2 None
        [True, True] None None None 0 None None 0 None None
       = Inr (\<lparr> amp = [Fin 0, Fin 1], mean = [[NaN], [Fin (21 / 2)]],
                covar = [[[NaN]], [[Fin (1 / 4)]]] \<rparr>, None)"
    by (simp add: update_def gmm_two_def gmm_K_def gmm_D_def shapes_ok_def shapes2_ok_def
        addA_def addM_def addC_def add0_def assign_changed_def fsum_def inf_signed_def Let_def)
  have 4: "update gmm_two [Fin 0, Fin 2] [[Fin 0], [Fin 21]] [[[Fin 0]], [[Fin (1 / 2)]]] 2 None
        [True, True] None None None 0 None None 1 None None
       = Inr (\<lparr> amp = [Fin 0, Fin 1], mean = [[NaN], [Fin (21 / 2)]],
                covar = [[[Fin 2]], [[Fin (5 / 6)]]] \<rparr>, None)"
    by (simp add: update_def gmm_two_def gmm_K_def gmm_D_def shapes_ok_def shapes2_ok_def
        addA_def addM_def addC_def add0_def assign_changed_def fsum_def inf_signed_def Let_def
        madd_def vadd_def mscale_def vscale_def eye_def)
  from 1 2 3 4 show ?thesis by simp
qed


text \<open>
  Where the sums have support the invariant of C1 does hold after a full update: when
  the combined effective counts \<open>A + A2\<close> are finite and non-negative with a positive
  total and \<open>N + N2 > 0\<close>, the new amplitudes are non-negative and sum to one.
\<close>

lemma fsum_Fin: "fsum (map Fin rs) = Fin (sum_list rs)"
  by (induction rs) (simp_all add: fsum_def)

lemma update_amp_full:
  assumes "update g A M C N B H A2 M2 C2 N2 B2 H2 w None bg = Inr (g', b')"
  shows "amp g' = (let amp1 = map (\<lambda>a. fdiv a (Fin (real (N + N2)))) (addA A A2)
                   in map (\<lambda>a. fdiv a (fsum amp1)) amp1)"
  using assms
  by (auto simp: update_def Let_def split: if_splits option.splits)

lemma update_amp_normalised:
  assumes u: "update g A M C N B H A2 M2 C2 N2 B2 H2 w None bg = Inr (g', b')"
    and A: "addA A A2 = map Fin rs" "list_all (\<lambda>r. 0 \<le> r) rs" "0 < sum_list rs"
    and N: "0 < N + N2"
  shows "normalised (amp g')"
proof -
  define n where "n = real (N + N2)"
  define s where "s = sum_list rs / n"
  have n: "0 < n" using N unfolding n_def by (simp only: of_nat_0_less_iff)
  have s: "0 < s" using n A(3) by (simp add: s_def)
  have amp1: "map (\<lambda>a. fdiv a (Fin n)) (map Fin rs) = map Fin (map (\<lambda>r. r / n) rs)"
    using n by simp
  have sum1: "sum_list (map (\<lambda>r. r / n) rs) = s"
    unfolding s_def by (induction rs) (simp_all add: add_divide_distrib)
  have "amp g' = (let amp1 = map (\<lambda>a. fdiv a (Fin n)) (map Fin rs)
                   in map (\<lambda>a. fdiv a (fsum amp1)) amp1)"
    using update_amp_full[OF u] unfolding n_def A(1) .
  then have "amp g' = map (\<lambda>a. fdiv a (fsum (map Fin (map (\<lambda>r. r / n) rs))))
                        (map Fin (map (\<lambda>r. r / n) rs))"
    by (simp only: Let_def amp1)
  then have "amp g' = map (\<lambda>a. fdiv a (Fin s)) (map Fin (map (\<lambda>r. r / n) rs))"
    by (simp only: fsum_Fin sum1)
  then have amp2: "amp g' = map Fin (map (\<lambda>r. r / n / s) rs)"
    using s by simp
  have sum2: "sum_list (map (\<lambda>r. r / n / s) rs) = sum_list (map (\<lambda>r. r / n) rs) / s"
    by (induction rs) (simp_all add: add_divide_distrib)
  have "sum_list (map (\<lambda>r. r / n / s) rs) = 1"
    using s by (simp only: sum2 sum1) simp
  then have "fsum (amp g') = Fin 1"
    by (simp only: amp2 fsum_Fin)
  moreover have "list_all nonneg (amp g')"
    using A(2) n s by (auto simp: amp2 list_all_iff nonneg_def fge_def)
  ultimately show ?thesis by (simp add: normalised_def)
qed


section \<open>The split\<close>

text \<open>
  C6, as amended. The split of component \<open>a2\<close> (with the merge of \<open>a0\<close> and \<open>a1\<close>, three
  different components) gives both children half of its amplitude, puts their means at
  the original mean minus and plus \<open>dl\<close>, where \<open>dl\<close> is the first right singular vector
  of the original covariance times a quarter of the square root of its first singular
  value, and sets both covariances to the isotropic matrix \<open>r I\<close> whose diagonal entries
  \<open>r\<close> are the D-th root of the determinant of the original covariance.
\<close>

theorem update_snm_split:
  assumes u: "update_snm L g [a0, a1, a2] U N cleanup = Inr (g', U')"
    and d: "a0 \<noteq> a1" "a0 \<noteq> a2" "a1 \<noteq> a2"
    and shape: "length (mean g) = gmm_K g" "length (covar g) = gmm_K g"
    and svd: "np_svd L (covar g ! a2) = (u0, radius2, rotation)"
  shows "amp g' ! a1 = fdiv (amp g ! a2) (Fin 2) \<and> amp g' ! a2 = fdiv (amp g ! a2) (Fin 2)
    \<and> mean g' ! a1 = vsub (mean g ! a2)
         (map (\<lambda>r. fdiv (fmul (fsqrt (radius2 ! 0)) r) (Fin 4)) (rotation ! 0))
    \<and> mean g' ! a2 = vadd (mean g ! a2)
         (map (\<lambda>r. fdiv (fmul (fsqrt (radius2 ! 0)) r) (Fin 4)) (rotation ! 0))
    \<and> covar g' ! a1 = mscale (froot (gmm_D g) (det (covar g ! a2))) (eye (gmm_D g))
    \<and> covar g' ! a2 = mscale (froot (gmm_D g) (det (covar g ! a2))) (eye (gmm_D g))"
proof -
  from u have K: "a0 < gmm_K g" "a1 < gmm_K g" "a2 < gmm_K g"
    by (auto simp: update_snm_def split: if_splits)
  then have Ka: "a0 < length (amp g)" "a1 < length (amp g)" "a2 < length (amp g)"
    by (simp_all add: gmm_K_def)
  show ?thesis
    using u d K Ka shape svd
    by (auto simp: update_snm_def ebind_eq_Inr Let_def np_det_def case_prod_beta
        split: if_splits)
qed


lemma froot_2_16: "froot 2 (Fin 16) = Fin 4"
proof -
  have "(16::real) powr (1 / 2) = sqrt 16" by (simp add: powr_half_sqrt)
  also have "sqrt 16 = sqrt (4\<^sup>2)" by simp
  also have "\<dots> = 4" by (simp only: real_sqrt_abs abs_numeral)
  finally show ?thesis by simp
qed

lemma eye_2: "eye (Suc (Suc 0)) = [[Fin 1, Fin 0], [Fin 0, Fin 1]]"
  by (simp add: eye_def)

lemma eye_2': "eye 2 = [[Fin 1, Fin 0], [Fin 0, Fin 1]]"
  by (simp add: eye_def upt_0_2)

lemma det_2x2: "det [[Fin a, Fin b], [Fin c, Fin d]] = Fin (a * d - b * c)"
  by (simp add: fsum_def)

lemma snm_demo_run:
  "update_snm lib_diag2 gmm_three [0, 1, 2] [Idx [0], Idx [1], Idx [2, 3]] 4 False =
     Inr (gmm_three_snm, [Idx [0, 1], Idx [2, 3], Idx [2, 3]])"
  by (simp add: update_snm_def gmm_three_def gmm_three_snm_def lib_diag2_def gmm_K_def gmm_D_def Let_def
      fsum_def vsum_def msum_def vadd_def madd_def vsub_def fsub_def mscale_def vscale_def
      np_det_def det_2x2 froot_2_16 eye_2 eye_2')


text \<open>
  Components 0 and 1 are merged and component 2, with covariance \<open>4 I\<close> and determinant
  16, is split: the children's covariance is \<open>4 I\<close>.
\<close>

theorem update_snm_split_witness:
  "amp gmm_three_snm ! 1 = fdiv (amp gmm_three ! 2) (Fin 2)
   \<and> amp gmm_three_snm ! 2 = fdiv (amp gmm_three ! 2) (Fin 2)
   \<and> mean gmm_three_snm ! 1 = vsub (mean gmm_three ! 2)
         (map (\<lambda>r. fdiv (fmul (fsqrt ([Fin 4, Fin 4] ! 0)) r) (Fin 4)) (eye 2 ! 0))
   \<and> mean gmm_three_snm ! 2 = vadd (mean gmm_three ! 2)
         (map (\<lambda>r. fdiv (fmul (fsqrt ([Fin 4, Fin 4] ! 0)) r) (Fin 4)) (eye 2 ! 0))
   \<and> covar gmm_three_snm ! 1 =
         mscale (froot (gmm_D gmm_three) (det (covar gmm_three ! 2))) (eye (gmm_D gmm_three))
   \<and> covar gmm_three_snm ! 2 =
         mscale (froot (gmm_D gmm_three) (det (covar gmm_three ! 2))) (eye (gmm_D gmm_three))"
proof -
  have d: "(0::nat) \<noteq> 1" "(0::nat) \<noteq> 2" "(1::nat) \<noteq> 2" by simp_all
  have shape: "length (mean gmm_three) = gmm_K gmm_three"
    "length (covar gmm_three) = gmm_K gmm_three"
    by (simp_all add: gmm_three_def gmm_K_def)
  have svd: "np_svd lib_diag2 (covar gmm_three ! 2) = (eye 2, [Fin 4, Fin 4], eye 2)"
    by (simp add: lib_diag2_def gmm_three_def)
  from update_snm_split [OF snm_demo_run d shape svd] show ?thesis .
qed

text \<open>
  C6 as stated fails in two dimensions: the determinant of the children's covariance
  \<open>4 I\<close> is 16, the determinant of the original covariance, and not its square root 4.
\<close>

theorem split_covariance_determinant:
  "update_snm lib_diag2 gmm_three [0, 1, 2] [Idx [0], Idx [1], Idx [2, 3]] 4 False =
     Inr (gmm_three_snm, [Idx [0, 1], Idx [2, 3], Idx [2, 3]])
   \<and> det (covar gmm_three ! 2) = Fin 16
   \<and> froot 2 (det (covar gmm_three ! 2)) = Fin 4
   \<and> det (covar gmm_three_snm ! 1) = Fin 16
   \<and> det (covar gmm_three_snm ! 2) = Fin 16"
proof -
  have 1: "det (covar gmm_three ! 2) = Fin 16"
    by (simp add: gmm_three_def fsum_def)
  have 2: "det (covar gmm_three_snm ! 1) = Fin 16" "det (covar gmm_three_snm ! 2) = Fin 16"
    by (simp_all add: gmm_three_snm_def fsum_def)
  from snm_demo_run 1 2 froot_2_16 show ?thesis by simp
qed

section \<open>The fit and the split-and-merge request\<close>

lemma demo_head_gen:
  assumes g: "st_gmm st = gmm_unit" and c: "cutoff = None \<or> cutoff = Some 3"
  shows "EM_head lib_1d step_demo data args cutoff None st (Suc 0) =
     Some \<lparr> v_state = st\<lparr>st_gmm := gmm_at 2,
                 st_U := (if cutoff = None then [Idx [0]] else [Null]),
                 st_bg := map_option (\<lambda>b. b\<lparr>bg_amp := Fin (1 / 2)\<rparr>) (st_bg st)\<rparr>,
            v_backup = gmm_at 2, v_log_L = Some (Fin 0), v_N = Some 1, v_N2 = 0 \<rparr>"
proof -
  have g0: "gmm_unit = gmm_at 0" "gmm_at 0\<lparr>mean := [[Fin 2]]\<rparr> = gmm_at 2"
    by (simp_all add: gmm_unit_def gmm_at_def)
  have sc: "EM_shift_cutoff lib_1d (gmm_at 0) cutoff = Fin (1 / 16)"
    using c by (auto simp: EM_shift_cutoff_def chi2_cutoff_1d min_def)
  show ?thesis
    using c
    by (auto simp: EM_body_def EM_init_def step_demo_def g g0 shift2_1d sc
        moved_of_def flatnonzero_def pick_def reset_nbh_def Let_def)
qed

lemma demo_EM_run:
  assumes g: "st_gmm st = gmm_unit" and c: "cutoff = None \<or> cutoff = Some 3"
    and tol: "arg_tol args = 1 / 1000"
  shows "EM lib_1d step_demo data args cutoff None st =
     Inr \<lparr> res_state = st\<lparr>st_gmm := gmm_at 2, st_U := [Idx [0]],
                 st_bg := map_option (\<lambda>b. b\<lparr>bg_amp := Fin (1 / 2)\<rparr>) (st_bg st)\<rparr>,
           res_log_L = Fin 0, res_N = 1, res_N2 = 0, res_iterations = 2 \<rparr>"
proof -
  let ?v = "\<lparr> v_state = st\<lparr>st_gmm := gmm_at 2,
                 st_U := (if cutoff = None then [Idx [0]] else [Null]),
                 st_bg := map_option (\<lambda>b. b\<lparr>bg_amp := Fin (1 / 2)\<rparr>) (st_bg st)\<rparr>,
            v_backup = gmm_at 2, v_log_L = Some (Fin 0), v_N = Some 1, v_N2 = 0 \<rparr>"
  have h: "EM_head lib_1d step_demo data args cutoff None st (Suc 0) = Some ?v"
    by (rule demo_head_gen[OF g c])
  have sc: "EM_shift_cutoff lib_1d (st_gmm st) cutoff = Fin (1 / 16)"
    using c by (auto simp: EM_shift_cutoff_def chi2_cutoff_1d min_def)
  have g2: "gmm_at 2\<lparr>mean := [[Fin 3]]\<rparr> = gmm_at 3" by (simp add: gmm_at_def)
  have b: "EM_body lib_1d step_demo data args cutoff (EM_cutoff_nd lib_1d (st_gmm st) cutoff)
             (EM_shift_cutoff lib_1d (st_gmm st) cutoff) None ?v (Suc 0) =
           Inr (Break \<lparr> v_state = st\<lparr>st_gmm := gmm_at 2, st_U := [Idx [0]],
                 st_bg := map_option (\<lambda>b. b\<lparr>bg_amp := Fin (1 / 2)\<rparr>) (st_bg st)\<rparr>,
                  v_backup = gmm_at 2, v_log_L = Some (Fin 0), v_N = Some 1, v_N2 = 0 \<rparr>)"
    by (simp add: EM_body_def step_demo_def g2 shift2_1d sc moved_of_def flatnonzero_def pick_def
        tol fsub_def Let_def option.map_comp comp_def)
  have m: "Suc 0 < EM_maxiter (st_gmm st)" "Suc 0 \<le> EM_maxiter (st_gmm st)"
    by (simp_all add: EM_maxiter_def)
  show ?thesis
    using EM_head_loop[OF h m(2)] EM_loop_break[OF m(1) b]
    by (simp add: EM_def)
qed

lemma snm_loop_below_3:
  "gmm_K (st_gmm st) < 3 \<Longrightarrow>
   snm_loop L step find_snm data args cutoff NN n st log_L = Some (Inr (log_L, st))"
  by (subst snm_loop.simps) simp

lemma snm_loop_zero:
  "snm_loop L step find_snm data args cutoff NN 0 st log_L = Some (Inr (log_L, st))"
  by (subst snm_loop.simps) simp

text \<open>
  C5, as amended. A request for split and merge on a mixture of fewer than 3 components
  is not an error: \<open>fit\<close> runs the same EM iterations and returns the same result (or
  raises the same error) as without the request, whatever the count \<open>n\<close> requested.
\<close>

theorem fit_ignores_split_n_merge_below_3:
  assumes plain: "fit L step find_snm g data (kw\<lparr>kw_split_n_merge := 0\<rparr>) = res"
    and K: "case res of Some (Inr (log_L, U, st)) \<Rightarrow> gmm_K (st_gmm st) < 3 | _ \<Rightarrow> True"
  shows "fit L step find_snm g data (kw\<lparr>kw_split_n_merge := n\<rparr>) = res"
proof -
  define i where "i = (case kw_init_callback kw of
                          None \<Rightarrow> (g, kw_rng kw)
                        | Some init \<Rightarrow> init g data (arg_covar (kw_args kw)) (kw_rng kw))"
  define bad where "bad \<longleftrightarrow> arg_covar (kw_args kw) \<noteq> NoNoise \<and>
      arg_sel_callback (kw_args kw) \<noteq> None \<and> arg_covar_callback (kw_args kw) = None"
  define cutoff where "cutoff = (if kw_background kw \<noteq> None \<and> kw_cutoff kw \<noteq> None then None
                         else kw_cutoff kw)"
  define st0 where "st0 = \<lparr> st_gmm = fst i,
                       st_U = replicate (gmm_K (fst i)) Null,
                       st_log_p = replicate (gmm_K (fst i)) [],
                       st_T_inv = replicate (gmm_K (fst i)) TNone,
                       st_log_S = replicate (length data) (Fin 0),
                       st_H = replicate (length data) False,
                       st_bg = kw_background kw,
                       st_rng = snd i \<rparr>"
  define em where "em = EM L step data (kw_args kw) cutoff None st0"
  have unfold: "fit L step find_snm g data (kw\<lparr>kw_split_n_merge := m\<rparr>) =
      (if bad then Some (Inl RuntimeError)
       else case em of
              Inl e \<Rightarrow> Some (Inl e)
            | Inr r \<Rightarrow>
                (case snm_loop L step find_snm data (kw_args kw) cutoff (res_N r + res_N2 r) m
                        (res_state r) (res_log_L r) of
                   None \<Rightarrow> None
                 | Some (Inl e) \<Rightarrow> Some (Inl e)
                 | Some (Inr (log_L, st)) \<Rightarrow> Some (Inr (log_L, st_U st, st))))" for m
    unfolding fit_def Let_def case_prod_beta bad_def em_def st0_def cutoff_def i_def
    by (simp cong: option.case_cong sum.case_cong)
  show ?thesis
  proof (cases bad)
    case True
    with plain show ?thesis by (simp add: unfold)
  next
    case False
    show ?thesis
    proof (cases em)
      case (Inl e)
      with False plain show ?thesis by (simp add: unfold)
    next
      case (Inr r)
      with False plain have res: "res = Some (Inr (res_log_L r, st_U (res_state r), res_state r))"
        by (simp add: unfold snm_loop_zero)
      with K have "gmm_K (st_gmm (res_state r)) < 3" by simp
      with Inr False res show ?thesis by (simp add: unfold snm_loop_below_3)
    qed
  qed
qed

text \<open>One component, and one round of split and merge requested.\<close>

theorem fit_ignores_split_n_merge_below_3_witness:
  "fit lib_1d step_demo find_none gmm_unit [[Fin 2]] (kwargs_demo\<lparr>kw_split_n_merge := 1\<rparr>) =
     Some (Inr (Fin 0, [Idx [0]], state_unit\<lparr>st_gmm := gmm_at 2, st_U := [Idx [0]]\<rparr>))"
proof -
  have plain: "fit lib_1d step_demo find_none gmm_unit [[Fin 2]] (kwargs_demo\<lparr>kw_split_n_merge := 0\<rparr>) =
     Some (Inr (Fin 0, [Idx [0]], state_unit\<lparr>st_gmm := gmm_at 2, st_U := [Idx [0]]\<rparr>))"
    unfolding fit_def Let_def
    by (simp add: kwargs_demo_def args_demo_def demo_EM_run snm_loop_zero state_unit_def
        gmm_K_def gmm_unit_def cong: option.case_cong sum.case_cong)
  have K: "case Some (Inr (Fin 0, [Idx [0]], state_unit\<lparr>st_gmm := gmm_at 2, st_U := [Idx [0]]\<rparr>))
             :: (error + (fl \<times> nbh list \<times> unit em_state)) option
           of Some (Inr (log_L, U, st)) \<Rightarrow> gmm_K (st_gmm st) < 3 | _ \<Rightarrow> True"
    by (simp add: gmm_K_def gmm_at_def)
  from fit_ignores_split_n_merge_below_3[OF plain K] show ?thesis .
qed


text \<open>
  C5 as stated fails: with one component and split and merge requested, \<open>fit\<close> iterates
  (twice) and returns the log-likelihood and the neighbourhoods; nothing is raised.
\<close>

theorem fit_split_n_merge_no_error:
  "gmm_K gmm_unit < 3
   \<and> kw_split_n_merge kwargs_demo = 1
   \<and> fit lib_1d step_demo find_none gmm_unit [[Fin 2]] kwargs_demo =
       Some (Inr (Fin 0, [Idx [0]], state_unit\<lparr>st_gmm := gmm_at 2, st_U := [Idx [0]]\<rparr>))"
proof -
  have "snm_loop lib_1d step_demo find_none [[Fin 2]] args_demo None 1 1
          (state_unit\<lparr>st_gmm := gmm_at 2, st_U := [Idx [0]]\<rparr>) (Fin 0) =
        Some (Inr (Fin 0, state_unit\<lparr>st_gmm := gmm_at 2, st_U := [Idx [0]]\<rparr>))"
    by (rule snm_loop_below_3) (simp add: gmm_K_def gmm_at_def)
  then have "fit lib_1d step_demo find_none gmm_unit [[Fin 2]] kwargs_demo =
       Some (Inr (Fin 0, [Idx [0]], state_unit\<lparr>st_gmm := gmm_at 2, st_U := [Idx [0]]\<rparr>))"
    unfolding fit_def Let_def
    by (simp add: kwargs_demo_def args_demo_def demo_EM_run state_unit_def
        gmm_K_def gmm_unit_def cong: option.case_cong sum.case_cong)
  then show ?thesis by (simp add: gmm_K_def gmm_unit_def kwargs_demo_def)
qed

section \<open>Cross-validation leaves the model unchanged\<close>

lemma cv_fold_restores:
  assumes "cv_fold L step find_snm logL gmm0 bg_amp0 data nfolds kw i s = Some (Inr (g', bg', lcv'))"
  shows "g' = gmm0 \<and> bg_amp_kept bg_amp0 bg'"
  using assms
  by (cases s)
    (auto simp: cv_fold_def Let_def bg_amp_kept_def split: option.splits sum.splits if_splits)

lemma cv_folds_restores:
  assumes "cv_folds L step find_snm logL gmm0 bg_amp0 data nfolds kw js s = Some (Inr (g', bg', lcv'))"
    and "fst s = gmm0" and "bg_amp_kept bg_amp0 (fst (snd s))"
  shows "g' = gmm0 \<and> bg_amp_kept bg_amp0 bg'"
  using assms
proof (induction js arbitrary: s)
  case Nil
  then show ?case by (cases s) auto
next
  case (Cons i js)
  from Cons.prems(1) obtain s1 where
    f: "cv_fold L step find_snm logL gmm0 bg_amp0 data nfolds kw i s = Some (Inr s1)"
    and r: "cv_folds L step find_snm logL gmm0 bg_amp0 data nfolds kw js s1 = Some (Inr (g', bg', lcv'))"
    by (auto split: option.splits sum.splits)
  obtain g1 bg1 lcv1 where s1: "s1 = (g1, bg1, lcv1)" by (cases s1) auto
  from cv_fold_restores[OF f[unfolded s1]] have
    "fst s1 = gmm0" "bg_amp_kept bg_amp0 (fst (snd s1))"
    by (simp_all add: s1)
  from Cons.IH[OF r this] show ?case .
qed

text \<open>
  C10. When \<open>cv_fit\<close> returns, the mixture is the one given at entry: its amplitudes,
  means and covariances are unchanged, although every fold fits, and so changes, the
  mixture; and a background that was given has the amplitude it had at entry.
\<close>

theorem cv_fit_restores_model:
  assumes "cv_fit L step find_snm logL g data nfolds kw = Some (Inr (lcv, g', bg'))"
  shows "amp g' = amp g \<and> mean g' = mean g \<and> covar g' = covar g
         \<and> bg_amp_kept (map_option bg_amp (kw_background kw)) bg'"
proof -
  from assms have
    "cv_folds L step find_snm logL g (map_option bg_amp (kw_background kw)) data nfolds kw
       [0..<nfolds] (g, kw_background kw, replicate (length data) None) = Some (Inr (g', bg', lcv))"
    by (auto simp: cv_fit_def Let_def split: if_splits option.splits sum.splits)
  from cv_folds_restores[OF this] show ?thesis
    by (auto simp: bg_amp_kept_def split: option.splits)
qed

lemma fit_demo_run:
  assumes "kw_args kw = args_demo" "kw_init_callback kw = None" "kw_split_n_merge kw = 0"
    "kw_cutoff kw = None"
  shows "fit lib_1d step_demo find_none gmm_unit data kw =
     Some (Inr (Fin 0, [Idx [0]],
       \<lparr> st_gmm = gmm_at 2, st_U = [Idx [0]], st_log_p = [[]], st_T_inv = [TNone],
         st_log_S = replicate (length data) (Fin 0), st_H = replicate (length data) False,
         st_bg = map_option (\<lambda>b. b\<lparr>bg_amp := Fin (1 / 2)\<rparr>) (kw_background kw),
         st_rng = kw_rng kw \<rparr>))"
  unfolding fit_def Let_def
  using assms
  by (simp add: args_demo_def gmm_K_def gmm_unit_def demo_EM_run snm_loop_zero
      cong: option.case_cong sum.case_cong)

lemma same_shape_demo: "same_shape (gmm_at a) gmm_unit"
  by (simp add: same_shape_def gmm_at_def gmm_unit_def)

lemma cv_fold_demo_0:
  "cv_fold lib_1d step_demo find_none logL_zero gmm_unit (Some (Fin 0))
     [[Fin 1], [Fin 2]] 2 kwargs_bg 0 (gmm_unit, Some bg_demo, [None, None]) =
   Some (Inr (gmm_unit, Some bg_demo, [Some (Fin 0), None]))"
  by (simp add: cv_fold_def Let_def upt_0_2 select_noise_def fit_demo_run logL_zero_def
      same_shape_demo kwargs_bg_def args_demo_def pick_def bg_demo_def)

lemma cv_fold_demo_1:
  "cv_fold lib_1d step_demo find_none logL_zero gmm_unit (Some (Fin 0))
     [[Fin 1], [Fin 2]] 2 kwargs_bg 1 (gmm_unit, Some bg_demo, [Some (Fin 0), None]) =
   Some (Inr (gmm_unit, Some bg_demo, [Some (Fin 0), Some (Fin 0)]))"
  by (simp add: cv_fold_def Let_def upt_0_2 select_noise_def fit_demo_run logL_zero_def
      same_shape_demo kwargs_bg_def args_demo_def pick_def bg_demo_def)

lemma cv_fit_demo_run:
  "cv_fit lib_1d step_demo find_none logL_zero gmm_unit [[Fin 1], [Fin 2]] 2 kwargs_bg =
     Some (Inr ([Some (Fin 0), Some (Fin 0)], gmm_unit, Some bg_demo))"
proof -
  have a: "map_option bg_amp (kw_background kwargs_bg) = Some (Fin 0)"
    "kw_background kwargs_bg = Some bg_demo" "kw_init_callback kwargs_bg = None"
    by (simp_all add: kwargs_bg_def bg_demo_def)
  show ?thesis
    unfolding cv_fit_def Let_def a upt_0_2
    using cv_fold_demo_0 cv_fold_demo_1 by (simp add: bg_demo_def)
qed

text \<open>
  Two folds over two samples with the background: each fold's fit moves the mean to 2
  and sets the background's amplitude to 1/2, and both are written back.
\<close>

theorem cv_fit_restores_model_witness:
  "cv_fit lib_1d step_demo find_none logL_zero gmm_unit [[Fin 1], [Fin 2]] 2 kwargs_bg =
     Some (Inr ([Some (Fin 0), Some (Fin 0)], gmm_unit, Some bg_demo))
   \<and> bg_amp_kept (map_option bg_amp (kw_background kwargs_bg)) (Some bg_demo)"
  using cv_fit_restores_model [OF cv_fit_demo_run] cv_fit_demo_run by simp

section \<open>Drawing with a selection\<close>











lemma sel_accepted:
  "(if ivt then map Not (map P xs) else map P xs) = map (accepted P ivt) xs"
  by (simp add: accepted_def)








end
